theory Spec2Isabelle
  imports Complex_Main "HOL-Library.Word" "HOL-Library.Multiset"
begin

unbundle bit_operations_syntax

section \<open>Dataset Destroyer: the degradation pipeline of datasetDestroyer.py\<close>

text \<open>
  The script reads its configuration into module-level variables, then degrades every
  image below the input folder with a chain of blur, noise, compression and scale steps.
  The functions below follow \<^verbatim>\<open>datasetDestroyer.py\<close> line by line. Python
  exceptions are values of type \<open>exn\<close>; every function that can raise returns
  \<open>exn + 'a\<close> with \<open>Inl\<close> for the exception. Each exception carries the name of
  the call or expression that raised it.
\<close>

subsection \<open>Exceptions\<close>

datatype exn =
    ValueError string
  | TypeError string
  | IndexError string
  | KeyError string
  | AttributeError string
  | UnboundLocalError string
  | NoOptionError string
  | cv2_error string

subsection \<open>Random sources\<close>

text \<open>
  The script draws from the generators of \<^verbatim>\<open>random\<close>, \<^verbatim>\<open>numpy.random\<close> and
  OpenCV. A random source is the infinite sequence of raw draws still to come; every
  sample consumes the first one. No seed is set in the script, so every sequence is a
  possible run.
\<close>

type_synonym rng = "nat \<Rightarrow> nat"

definition next_raw :: "rng \<Rightarrow> nat \<times> rng" where
  "next_raw g = (g 0, \<lambda>n. g (Suc n))"

text \<open>\<^verbatim>\<open>random._randbelow(n)\<close> for \<open>n > 0\<close>: a value in \<open>{0..<n}\<close>.\<close>

definition randbelow :: "nat \<Rightarrow> rng \<Rightarrow> nat \<times> rng" where
  "randbelow n g = (case next_raw g of (r, g') \<Rightarrow> (r mod n, g'))"

text \<open>\<^verbatim>\<open>random.randint(a, b)\<close>: inclusive of both bounds; an empty range raises.\<close>

definition randint :: "int \<Rightarrow> int \<Rightarrow> rng \<Rightarrow> exn + (int \<times> rng)" where
  "randint a b g =
     (if b < a then Inl (ValueError ''randint'')
      else case randbelow (nat (b - a + 1)) g of (r, g') \<Rightarrow> Inr (a + int r, g'))"

text \<open>
  \<^verbatim>\<open>randint(*range)\<close>: the range is the tuple parsed from the configuration; the call
  needs exactly two arguments.
\<close>

definition randint_star :: "int list \<Rightarrow> rng \<Rightarrow> exn + (int \<times> rng)" where
  "randint_star r g = (case r of [a, b] \<Rightarrow> randint a b g | _ \<Rightarrow> Inl (TypeError ''randint''))"

text \<open>\<^verbatim>\<open>random.choice(seq)\<close>.\<close>

definition choice :: "'a list \<Rightarrow> rng \<Rightarrow> exn + ('a \<times> rng)" where
  "choice xs g =
     (if xs = [] then Inl (IndexError ''choice'')
      else case randbelow (length xs) g of (r, g') \<Rightarrow> Inr (xs ! r, g'))"

text \<open>
  \<^verbatim>\<open>random.shuffle(x)\<close>, in place:
  \<^verbatim>\<open>for i in reversed(range(1, len(x))): j = randbelow(i + 1); x[i], x[j] = x[j], x[i]\<close>.
  \<open>shuffle_from i\<close> runs the iterations for the indices \<open>i, i - 1, ..., 1\<close>.
\<close>

definition swap :: "'a list \<Rightarrow> nat \<Rightarrow> nat \<Rightarrow> 'a list" where
  "swap xs i j = xs[i := xs ! j, j := xs ! i]"

fun shuffle_from :: "nat \<Rightarrow> 'a list \<Rightarrow> rng \<Rightarrow> 'a list \<times> rng" where
  "shuffle_from 0 xs g = (xs, g)"
| "shuffle_from (Suc k) xs g =
     (case randbelow (Suc k + 1) g of (j, g') \<Rightarrow> shuffle_from k (swap xs (Suc k) j) g')"

definition shuffle :: "'a list \<Rightarrow> rng \<Rightarrow> 'a list \<times> rng" where
  "shuffle xs g = shuffle_from (length xs - 1) xs g"

subsection \<open>Configuration\<close>

text \<open>
  The module-level variables of lines 18 to 40. Lists come from \<^verbatim>\<open>split(',')\<close>,
  integer ranges from \<^verbatim>\<open>tuple(map(int, ...))\<close>, so a range is a tuple of any length.
  \<open>mpegbitrate\<close> and \<open>mpeg2bitrate\<close> are read on demand at lines 162 and 165 and may be
  missing. A float variable holds the rational value of its double: \<open>size_factor\<close> and
  the bounds of \<open>scale_range\<close> are what \<^verbatim>\<open>float\<close> made of the configured text.
\<close>

record config =
  input_folder :: string
  output_folder :: string
  output_format :: string
  degradations :: "string list"
  degradations_randomize :: bool
  blur_algorithms :: "string list"
  blur_randomize :: bool
  blur_range :: "int list"
  noise_algorithms :: "string list"
  noise_randomize :: bool
  noise_range :: "int list"
  compression_algorithms :: "string list"
  compression_randomize :: bool
  jpeg_quality_range :: "int list"
  webp_quality_range :: "int list"
  h264_crf_level_range :: "int list"
  hevc_crf_level_range :: "int list"
  mpegbitrate :: "string option"
  mpeg2bitrate :: "string option"
  size_factor :: rat
  scale_algorithms :: "string list"
  down_up_scale_algorithms :: "string list"
  scale_randomize :: bool
  scale_range :: "rat list"
  print_to_image :: bool

subsection \<open>Values and strings\<close>

text \<open>
  A float is modelled by the rational it denotes; infinities and NaN are outside the
  model. Python's floats are IEEE 754 doubles: the result of an operation is the exact
  result rounded to the nearest double, ties to the even mantissa. \<open>round_double\<close> is
  that rounding: 53 bits of mantissa, with the fixed spacing \<open>2 ^ -1074\<close> below
  \<open>2 ^ -1022\<close>. \<open>bit_length\<close> is \<^verbatim>\<open>int.bit_length\<close>, and \<open>floor_log2 a\<close> is
  the exponent \<open>e\<close> with \<open>2 ^ e \<le> a < 2 ^ (e + 1)\<close> for a positive \<open>a\<close>.
\<close>

function bit_length :: "int \<Rightarrow> nat" where
  "bit_length n = (if n \<le> 0 then 0 else Suc (bit_length (n div 2)))"
  by pat_completeness auto
termination
  by (relation "measure nat") auto

declare bit_length.simps [simp del]

definition pow2 :: "int \<Rightarrow> rat" where
  "pow2 k = (if 0 \<le> k then 2 ^ nat k else 1 / 2 ^ nat (- k))"

definition floor_log2 :: "rat \<Rightarrow> int" where
  "floor_log2 a =
     (case quotient_of a of (n, d) \<Rightarrow>
        let k = int (bit_length n) - int (bit_length d)
        in if pow2 k \<le> a then k else k - 1)"

definition round_half_even :: "rat \<Rightarrow> int" where
  "round_half_even x =
     (let f = \<lfloor>x\<rfloor> in
      if x - of_int f < 1 / 2 then f
      else if 1 / 2 < x - of_int f then f + 1
      else if even f then f else f + 1)"

definition round_double :: "rat \<Rightarrow> rat" where
  "round_double x =
     (if x = 0 then 0
      else let a = \<bar>x\<bar>;
               ulp = pow2 (max (floor_log2 a) (- 1022) - 52)
           in sgn x * of_int (round_half_even (a / ulp)) * ulp)"

text \<open>
  The operations on two doubles. The script's float arithmetic that ends in an integer
  (the pixel counts of lines 213, 214 and 238, the noise of lines 94 and 99) and the
  scale factors of lines 237 and 242 use them. Three expressions keep the exact value:
  \<open>4 * sigma + 0.5\<close> of line 68, which truncates to the same integer in doubles for
  \<open>\<bar>sigma\<bar> < 2 ^ 53\<close>; the font scale of line 44, which is only handed to OpenCV;
  and the arithmetic inside \<^verbatim>\<open>cv2.randn\<close>.
\<close>

definition fmul :: "rat \<Rightarrow> rat \<Rightarrow> rat" where
  "fmul a b = round_double (a * b)"

definition fadd :: "rat \<Rightarrow> rat \<Rightarrow> rat" where
  "fadd a b = round_double (a + b)"

definition fsub :: "rat \<Rightarrow> rat \<Rightarrow> rat" where
  "fsub a b = round_double (a - b)"

definition fdiv :: "rat \<Rightarrow> rat \<Rightarrow> rat" where
  "fdiv a b = round_double (a / b)"

text \<open>
  \<^verbatim>\<open>int(x)\<close> on a float truncates towards zero; \<open>py_float\<close> is the
  conversion of an integer operand to a double.
\<close>

definition py_int :: "rat \<Rightarrow> int" where
  "py_int x = (if 0 \<le> x then \<lfloor>x\<rfloor> else \<lceil>x\<rceil>)"

definition py_float :: "int \<Rightarrow> rat" where
  "py_float n = round_double (of_int n)"

text \<open>\<^verbatim>\<open>str(n)\<close> for an integer, as the f-strings of the script print it.\<close>

fun digits :: "nat \<Rightarrow> string" where
  "digits n =
     (if n < 10 then [''0123456789'' ! n]
      else digits (n div 10) @ [''0123456789'' ! (n mod 10)])"

declare digits.simps [simp del]

definition str_int :: "int \<Rightarrow> string" where
  "str_int k = (if k < 0 then ''-'' @ digits (nat (- k)) else digits (nat k))"

text \<open>
  Exceptions propagate: the rest of a function runs only when the call returned.
\<close>

definition bindE :: "exn + 'a \<Rightarrow> ('a \<Rightarrow> exn + 'b) \<Rightarrow> exn + 'b" where
  "bindE m f = (case m of Inl e \<Rightarrow> Inl e | Inr x \<Rightarrow> f x)"

subsection \<open>Images and the external libraries\<close>

text \<open>
  An image is a numpy array of shape \<open>(height, width, 3)\<close> with 8-bit unsigned samples,
  stored row by row. \<open>drawn\<close> lists the text lines that \<^verbatim>\<open>cv2.putText\<close> rendered onto
  the image (text, origin, font scale), in the order of the calls; the glyph pixels
  themselves are not modelled. A Python variable holding an image may also hold
  \<^verbatim>\<open>None\<close>: \<open>image option\<close>.
\<close>

type_synonym u8 = "8 word"

record image =
  height :: nat
  width :: nat
  data :: "u8 list"
  drawn :: "(string \<times> (int \<times> int) \<times> rat) list"


text \<open>
  What OpenCV, ffmpeg, numpy's normal sampler, the float formatter and the file system
  compute is not part of the script; it is a parameter of the model. The filters and
  codecs return the new sample data or raise.
\<close>

record lib =
  imread :: "string \<Rightarrow> image option"
  blur :: "image \<Rightarrow> int \<times> int \<Rightarrow> exn + u8 list"
  GaussianBlur :: "image \<Rightarrow> int \<times> int \<Rightarrow> rat \<Rightarrow> rat \<Rightarrow> exn + u8 list"
  resize :: "image \<Rightarrow> int \<times> int \<Rightarrow> int \<Rightarrow> exn + u8 list"
  imencode :: "string \<Rightarrow> image \<Rightarrow> int list \<Rightarrow> exn + u8 list"
  imdecode :: "u8 list \<Rightarrow> image option"
  ffmpeg_encode ::
    "string \<Rightarrow> string \<Rightarrow> (string \<times> string) list \<Rightarrow> nat \<times> nat \<Rightarrow> u8 list \<Rightarrow> exn + u8 list"
  ffmpeg_decode :: "string \<Rightarrow> u8 list \<Rightarrow> exn + (u8 list \<times> string)"
  std_normal :: "nat \<Rightarrow> rat"
  repr_float :: "rat \<Rightarrow> string"
  format_2f :: "rat \<Rightarrow> string"
  out_path :: "string \<Rightarrow> string \<Rightarrow> string \<Rightarrow> string \<Rightarrow> string"
  makedirs :: "string \<Rightarrow> exn option"
  imwrite :: "string \<Rightarrow> image \<Rightarrow> exn option"

text \<open>
  \<^verbatim>\<open>cv2.blur\<close> and \<^verbatim>\<open>cv2.GaussianBlur\<close>: the result has the size of the source; a
  \<^verbatim>\<open>None\<close> source raises.
\<close>

definition cv2_blur :: "lib \<Rightarrow> image option \<Rightarrow> int \<times> int \<Rightarrow> exn + image option" where
  "cv2_blur L im ksize =
     (case im of
        None \<Rightarrow> Inl (cv2_error ''blur'')
      | Some img \<Rightarrow> bindE (blur L img ksize) (\<lambda>px. Inr (Some (img\<lparr>data := px\<rparr>))))"

definition cv2_GaussianBlur ::
  "lib \<Rightarrow> image option \<Rightarrow> int \<times> int \<Rightarrow> rat \<Rightarrow> rat \<Rightarrow> exn + image option" where
  "cv2_GaussianBlur L im ksize sigmaX sigmaY =
     (case im of
        None \<Rightarrow> Inl (cv2_error ''GaussianBlur'')
      | Some img \<Rightarrow>
          bindE (GaussianBlur L img ksize sigmaX sigmaY) (\<lambda>px. Inr (Some (img\<lparr>data := px\<rparr>))))"

subsection \<open>Choosing an algorithm\<close>

text \<open>
  Lines 51 to 54, and the same four lines in every operator:
  \<^verbatim>\<open>choice(algorithms)\<close> when the operator's randomize flag is set, else
  \<^verbatim>\<open>algorithms[0]\<close>.
\<close>

definition choose_algorithm :: "bool \<Rightarrow> string list \<Rightarrow> rng \<Rightarrow> exn + (string \<times> rng)" where
  "choose_algorithm randomize algorithms g =
     (if randomize then choice algorithms g
      else case algorithms of [] \<Rightarrow> Inl (IndexError ''algorithms[0]'') | a # _ \<Rightarrow> Inr (a, g))"

subsection \<open>Blur (lines 48 to 80)\<close>

text \<open>Line 62: \<^verbatim>\<open>randint(*blur_range) | 1\<close>.\<close>

definition gaussian_ksize :: "int \<Rightarrow> int" where
  "gaussian_ksize k = k OR 1"

text \<open>Lines 68, 75 and 76: \<^verbatim>\<open>2 * int(4 * sigma + 0.5) + 1\<close>.\<close>

definition sigma_ksize :: "int \<Rightarrow> int" where
  "sigma_ksize sigma = 2 * py_int (of_int (4 * sigma) + 1 / 2) + 1"

definition apply_blur ::
  "lib \<Rightarrow> config \<Rightarrow> image option \<Rightarrow> rng \<Rightarrow> exn + ((image option \<times> string) \<times> rng)" where
  "apply_blur L cfg im g =
     bindE (choose_algorithm (blur_randomize cfg) (blur_algorithms cfg) g) (\<lambda>(algorithm, g).
       if algorithm = ''average'' then
         bindE (randint_star (blur_range cfg) g) (\<lambda>(ksize, g).
         bindE (cv2_blur L im (ksize, ksize)) (\<lambda>im.
           Inr ((im, algorithm @ '' ksize='' @ str_int ksize), g)))
       else if algorithm = ''gaussian'' then
         bindE (randint_star (blur_range cfg) g) (\<lambda>(k, g).
         let ksize = gaussian_ksize k in
         bindE (cv2_GaussianBlur L im (ksize, ksize) 0 0) (\<lambda>im.
           Inr ((im, algorithm @ '' ksize='' @ str_int ksize), g)))
       else if algorithm = ''isotropic'' then
         bindE (randint_star (blur_range cfg) g) (\<lambda>(sigma, g).
         let ksize = sigma_ksize sigma in
         bindE (cv2_GaussianBlur L im (ksize, ksize) (of_int sigma) (of_int sigma)) (\<lambda>im.
           Inr ((im, algorithm @ '' ksize='' @ str_int ksize @ '' sigma='' @ str_int sigma), g)))
       else if algorithm = ''anisotropic'' then
         bindE (randint_star (blur_range cfg) g) (\<lambda>(sigma_x, g).
         bindE (randint_star (blur_range cfg) g) (\<lambda>(sigma_y, g).
         let ksize_x = sigma_ksize sigma_x; ksize_y = sigma_ksize sigma_y in
         bindE (cv2_GaussianBlur L im (ksize_x, ksize_y) (of_int sigma_x) (of_int sigma_y))
           (\<lambda>im.
           Inr ((im, algorithm @ '' sigma_x='' @ str_int sigma_x @ '' sigma_y='' @ str_int sigma_y
                   @ '' ksize_x='' @ str_int ksize_x @ '' ksize_y='' @ str_int ksize_y), g))))
       else Inr ((im, []), g))"

subsection \<open>Noise (lines 83 to 118)\<close>

text \<open>
  \<open>raws n\<close> takes the next \<open>n\<close> raw draws: one for every sample of a noise array.
  \<^verbatim>\<open>np.random.uniform(low, high)\<close> is \<open>low + (high - low) * u\<close> with \<open>u\<close> in
  \<open>[0, 1)\<close> on 53 bits; \<^verbatim>\<open>np.random.normal(loc, scale)\<close> is
  \<open>loc + scale * z\<close> with \<open>z\<close> a standard normal deviate, and raises when
  \<open>scale < 0\<close>. Both are computed in doubles.
\<close>

definition raws :: "nat \<Rightarrow> rng \<Rightarrow> nat list \<times> rng" where
  "raws n g = (map g [0..<n], \<lambda>k. g (n + k))"

definition np_uniform :: "rat \<Rightarrow> rat \<Rightarrow> nat \<Rightarrow> rat" where
  "np_uniform low high r = fadd low (fmul (fsub high low) (of_nat (r mod 2 ^ 53) / 2 ^ 53))"

definition np_random_uniform :: "rat \<Rightarrow> rat \<Rightarrow> nat \<Rightarrow> rng \<Rightarrow> rat list \<times> rng" where
  "np_random_uniform low high n g =
     (case raws n g of (rs, g') \<Rightarrow> (map (np_uniform low high) rs, g'))"

definition np_random_normal ::
  "lib \<Rightarrow> rat \<Rightarrow> rat \<Rightarrow> nat \<Rightarrow> rng \<Rightarrow> exn + (rat list \<times> rng)" where
  "np_random_normal L loc scale n g =
     (if scale < 0 then Inl (ValueError ''normal'')
      else case raws n g of (rs, g') \<Rightarrow> Inr (map (\<lambda>r. fadd loc (fmul scale (std_normal L r))) rs, g'))"

text \<open>
  \<^verbatim>\<open>noise.astype(image.dtype)\<close>: a float converted to \<^verbatim>\<open>uint8\<close> loses its fraction
  and keeps the low 8 bits.
\<close>

definition astype_u8 :: "rat \<Rightarrow> u8" where
  "astype_u8 x = of_int (py_int x)"

text \<open>
  \<^verbatim>\<open>cv2.add\<close> on two arrays of the same shape adds sample by sample and saturates:
  \<^verbatim>\<open>saturate_cast<uchar>(a + b)\<close>.
\<close>

definition sat_add :: "u8 \<Rightarrow> u8 \<Rightarrow> u8" where
  "sat_add a b = (if 255 < unat a + unat b then 255 else a + b)"

definition cv2_add :: "image \<Rightarrow> u8 list \<Rightarrow> image" where
  "cv2_add img noise = img\<lparr>data := map2 sat_add (data img) noise\<rparr>"

text \<open>
  \<^verbatim>\<open>image += noise\<close> on \<^verbatim>\<open>uint8\<close> arrays is numpy's addition in place: modulo
  \<open>2 ^ 8\<close>.
\<close>

definition np_iadd :: "image \<Rightarrow> u8 list \<Rightarrow> image" where
  "np_iadd img noise = img\<lparr>data := map2 (+) (data img) noise\<rparr>"

text \<open>
  \<^verbatim>\<open>cv2.randn(dst, mean, stddev)\<close> with mean 0 on a \<^verbatim>\<open>uint8\<close> array: every sample is
  \<^verbatim>\<open>saturate_cast<uchar>(cvRound(stddev[c] * z))\<close> for the sample's channel \<open>c\<close>;
  \<^verbatim>\<open>cvRound\<close> rounds halves to the even neighbour.
\<close>

definition cvRound :: "rat \<Rightarrow> int" where
  "cvRound x =
     (let f = \<lfloor>x\<rfloor> in
      if x - of_int f < 1 / 2 then f
      else if 1 / 2 < x - of_int f then f + 1
      else if even f then f else f + 1)"

definition saturate_u8 :: "int \<Rightarrow> u8" where
  "saturate_u8 k = (if k < 0 then 0 else if 255 < k then 255 else of_int k)"

definition cv2_randn :: "lib \<Rightarrow> nat \<Rightarrow> int list \<Rightarrow> rng \<Rightarrow> u8 list \<times> rng" where
  "cv2_randn L n s g =
     (case raws n g of (rs, g') \<Rightarrow>
        (map (\<lambda>(i, r). saturate_u8 (cvRound (of_int (s ! (i mod length s)) * std_normal L r)))
           (enumerate 0 rs), g'))"

text \<open>
  \<^verbatim>\<open>gray_noise[..., None]\<close> has shape \<open>(height, width, 1)\<close>; adding it to the image
  repeats each value over the three channels.
\<close>

definition broadcast3 :: "u8 list \<Rightarrow> u8 list" where
  "broadcast3 xs = concat (map (\<lambda>v. [v, v, v]) xs)"

text \<open>The f-string of a tuple of integers: \<^verbatim>\<open>(3, 4, 5)\<close>, \<^verbatim>\<open>(3,)\<close>.\<close>

fun str_items :: "int list \<Rightarrow> string" where
  "str_items [] = []"
| "str_items [a] = str_int a"
| "str_items (a # b # bs) = str_int a @ '', '' @ str_items (b # bs)"

definition str_tuple :: "int list \<Rightarrow> string" where
  "str_tuple s = (case s of [a] \<Rightarrow> ''('' @ str_int a @ '',)'' | _ \<Rightarrow> ''('' @ str_items s @ '')'')"

definition apply_noise ::
  "lib \<Rightarrow> config \<Rightarrow> image option \<Rightarrow> rng \<Rightarrow> exn + ((image option \<times> string) \<times> rng)" where
  "apply_noise L cfg im g =
     bindE (choose_algorithm (noise_randomize cfg) (noise_algorithms cfg) g) (\<lambda>(algorithm, g).
       if algorithm = ''uniform'' then
         bindE (randint_star (noise_range cfg) g) (\<lambda>(intensity, g).
         case im of
           None \<Rightarrow> Inl (AttributeError ''shape'')
         | Some img \<Rightarrow>
             (case np_random_uniform (py_float (- intensity)) (py_float intensity)
                     (height img * width img * 3) g of
                (noise, g) \<Rightarrow>
                  Inr ((Some (cv2_add img (map astype_u8 noise)),
                        algorithm @ '' intensity='' @ str_int intensity), g)))
       else if algorithm = ''gaussian'' then
         bindE (randint_star (noise_range cfg) g) (\<lambda>(intensity, g).
         case im of
           None \<Rightarrow> Inl (AttributeError ''shape'')
         | Some img \<Rightarrow>
             bindE (np_random_normal L 0 (py_float intensity) (height img * width img * 3) g)
               (\<lambda>(noise, g).
                  Inr ((Some (cv2_add img (map astype_u8 noise)),
                        algorithm @ '' intensity='' @ str_int intensity), g)))
       else if algorithm = ''color'' then
         bindE (randint_star (noise_range cfg) g) (\<lambda>(s0, g).
         bindE (randint_star (noise_range cfg) g) (\<lambda>(s1, g).
         bindE (randint_star (noise_range cfg) g) (\<lambda>(s2, g).
         case im of
           None \<Rightarrow> Inl (cv2_error ''randn'')
         | Some img \<Rightarrow>
             (case cv2_randn L (height img * width img * 3) [s0, s1, s2] g of
                (noise, g) \<Rightarrow>
                  Inr ((Some (np_iadd img noise), algorithm @ '' s='' @ str_tuple [s0, s1, s2]), g)))))
       else if algorithm = ''gray'' then
         (case im of
            None \<Rightarrow> Inl (AttributeError ''shape'')
          | Some img \<Rightarrow>
              bindE (randint_star (noise_range cfg) g) (\<lambda>(s0, g).
              case cv2_randn L (height img * width img) [s0] g of
                (gray_noise, g) \<Rightarrow>
                  Inr ((Some (np_iadd img (broadcast3 gray_noise)),
                        algorithm @ '' s='' @ str_tuple [s0]), g)))
       else Inr ((im, []), g))"

subsection \<open>Compression (lines 121 to 206)\<close>

text \<open>
  \<^verbatim>\<open>cv2.imencode\<close> raises on \<^verbatim>\<open>None\<close>; \<^verbatim>\<open>cv2.imdecode\<close> returns \<^verbatim>\<open>None\<close> for
  bytes it cannot decode, and \<^verbatim>\<open>.copy()\<close> on \<^verbatim>\<open>None\<close> raises.
\<close>

definition cv2_imencode :: "lib \<Rightarrow> string \<Rightarrow> image option \<Rightarrow> int list \<Rightarrow> exn + u8 list" where
  "cv2_imencode L ext im params =
     (case im of None \<Rightarrow> Inl (cv2_error ''imencode'') | Some img \<Rightarrow> imencode L ext img params)"

definition imdecode_copy :: "lib \<Rightarrow> u8 list \<Rightarrow> exn + image option" where
  "imdecode_copy L encimg =
     (case imdecode L encimg of None \<Rightarrow> Inl (AttributeError ''copy'') | Some img \<Rightarrow> Inr (Some img))"

text \<open>
  Line 197: \<^verbatim>\<open>np.frombuffer(out, np.uint8).reshape([height, width, 3])\<close>. numpy raises
  \<^verbatim>\<open>ValueError\<close> unless the buffer holds exactly \<open>height * width * 3\<close> bytes. Lines
  200 to 204 log the exception and raise it again.
\<close>

definition frombuffer_reshape :: "u8 list \<Rightarrow> nat \<Rightarrow> nat \<Rightarrow> exn + image" where
  "frombuffer_reshape out h w =
     (if length out = h * w * 3
      then Inr \<lparr>height = h, width = w, data = out, drawn = []\<rparr>
      else Inl (ValueError ''reshape''))"

text \<open>Lines 145 to 152: the ffmpeg codec name of an algorithm.\<close>

definition codec_of :: "string \<Rightarrow> string" where
  "codec_of algorithm =
     (if algorithm = ''mpeg'' then ''mpeg1video''
      else if algorithm = ''mpeg2'' then ''mpeg2video'' else algorithm)"

text \<open>Lines 155 to 168: the encoder arguments, in insertion order.\<close>

definition output_args_of ::
  "config \<Rightarrow> string \<Rightarrow> rng \<Rightarrow> exn + ((string \<times> string) list \<times> rng)" where
  "output_args_of cfg algorithm g =
     (if algorithm = ''h264'' then
        bindE (randint_star (h264_crf_level_range cfg) g) (\<lambda>(crf_level, g).
          Inr ([(''crf'', str_int crf_level)], g))
      else if algorithm = ''hevc'' then
        bindE (randint_star (hevc_crf_level_range cfg) g) (\<lambda>(crf_level, g).
          Inr ([(''crf'', str_int crf_level), (''x265-params'', ''log-level=0'')], g))
      else if algorithm = ''mpeg'' then
        (case mpegbitrate cfg of
           None \<Rightarrow> Inl (NoOptionError ''mpegbitrate'')
         | Some bitrate \<Rightarrow> Inr ([(''b'', bitrate)], g))
      else if algorithm = ''mpeg2'' then
        (case mpeg2bitrate cfg of
           None \<Rightarrow> Inl (NoOptionError ''mpeg2bitrate'')
         | Some bitrate \<Rightarrow> Inr ([(''b'', bitrate)], g))
      else Inr ([], g))"

definition apply_compression ::
  "lib \<Rightarrow> config \<Rightarrow> image option \<Rightarrow> rng \<Rightarrow> exn + ((image option \<times> string) \<times> rng)" where
  "apply_compression L cfg im g =
     bindE (choose_algorithm (compression_randomize cfg) (compression_algorithms cfg) g)
       (\<lambda>(algorithm, g).
       if algorithm = ''jpeg'' then
         bindE (randint_star (jpeg_quality_range cfg) g) (\<lambda>(quality, g).
         bindE (cv2_imencode L ''.jpg'' im [1, quality]) (\<lambda>encimg.
         bindE (imdecode_copy L encimg) (\<lambda>im.
           Inr ((im, algorithm @ '' quality='' @ str_int quality), g))))
       else if algorithm = ''webp'' then
         bindE (randint_star (webp_quality_range cfg) g) (\<lambda>(quality, g).
         bindE (cv2_imencode L ''.webp'' im [64, quality]) (\<lambda>encimg.
         bindE (imdecode_copy L encimg) (\<lambda>im.
           Inr ((im, algorithm @ '' quality='' @ str_int quality), g))))
       else if algorithm \<in> set [''h264'', ''hevc'', ''mpeg'', ''mpeg2''] then
         (case im of
            None \<Rightarrow> Inl (AttributeError ''shape'')
          | Some img \<Rightarrow>
              let h = height img; w = width img; codec = codec_of algorithm;
                  container = ''mpeg'' in
              bindE (output_args_of cfg algorithm g) (\<lambda>(output_args, g).
              bindE (ffmpeg_encode L container codec output_args (w, h) (data img)) (\<lambda>enc.
              bindE (ffmpeg_decode L container enc) (\<lambda>(out, err).
              bindE (frombuffer_reshape out h w) (\<lambda>img'.
                case output_args of
                  [] \<Rightarrow> Inl (IndexError ''output_args'')
                | first_arg # _ \<Rightarrow>
                    Inr ((Some img', algorithm @ '' '' @ fst first_arg @ ''='' @ snd first_arg),
                         g))))))
       else Inr ((im, []), g))"

subsection \<open>Scale (lines 209 to 248)\<close>

text \<open>
  Lines 213 and 214: \<^verbatim>\<open>int(h * size_factor)\<close>, the product of two doubles cut
  towards zero.
\<close>

definition new_size :: "config \<Rightarrow> nat \<Rightarrow> int" where
  "new_size cfg h = py_int (fmul (py_float (int h)) (size_factor cfg))"

text \<open>Lines 222 to 228, with OpenCV's interpolation codes.\<close>

definition interpolation_map :: "string \<Rightarrow> int option" where
  "interpolation_map =
     [''bicubic'' \<mapsto> 2, ''bilinear'' \<mapsto> 1, ''box'' \<mapsto> 3, ''nearest'' \<mapsto> 0, ''lanczos'' \<mapsto> 4]"

definition lookup_interpolation :: "string \<Rightarrow> exn + int" where
  "lookup_interpolation algorithm =
     (case interpolation_map algorithm of None \<Rightarrow> Inl (KeyError algorithm) | Some c \<Rightarrow> Inr c)"

text \<open>
  \<^verbatim>\<open>cv2.resize(src, dsize, interpolation)\<close> with \<open>dsize = (width, height)\<close>: the result
  has the size \<open>dsize\<close>; an empty \<open>dsize\<close> raises, since the script passes no scale
  factors \<^verbatim>\<open>fx\<close>, \<^verbatim>\<open>fy\<close>.
\<close>

definition cv2_resize :: "lib \<Rightarrow> image option \<Rightarrow> int \<times> int \<Rightarrow> int \<Rightarrow> exn + image option" where
  "cv2_resize L im dsize interpolation =
     (case im of
        None \<Rightarrow> Inl (cv2_error ''resize'')
      | Some img \<Rightarrow>
          if fst dsize \<le> 0 \<or> snd dsize \<le> 0 then Inl (cv2_error ''resize'')
          else bindE (resize L img dsize interpolation) (\<lambda>px.
                 Inr (Some (img\<lparr>height := nat (snd dsize), width := nat (fst dsize), data := px\<rparr>))))"

text \<open>
  \<^verbatim>\<open>np.random.uniform(*scale_range)\<close> for a single value; the arguments are
  \<open>low = 0\<close>, \<open>high = 1\<close> and \<open>size\<close>, and a float is not a size.
\<close>

definition uniform_star :: "rat list \<Rightarrow> rng \<Rightarrow> exn + (rat \<times> rng)" where
  "uniform_star r g =
     (case next_raw g of (x, g') \<Rightarrow>
        (case r of
           [] \<Rightarrow> Inr (np_uniform 0 1 x, g')
         | [low] \<Rightarrow> Inr (np_uniform low 1 x, g')
         | [low, high] \<Rightarrow> Inr (np_uniform low high x, g')
         | _ \<Rightarrow> Inl (TypeError ''uniform'')))"

text \<open>Lines 231 to 236: the two kernels of \<^verbatim>\<open>down_up\<close>.\<close>

definition choose_down_up :: "config \<Rightarrow> rng \<Rightarrow> exn + ((string \<times> string) \<times> rng)" where
  "choose_down_up cfg g =
     (if scale_randomize cfg then
        bindE (choice (down_up_scale_algorithms cfg) g) (\<lambda>(algorithm1, g).
        bindE (choice (down_up_scale_algorithms cfg) g) (\<lambda>(algorithm2, g).
          Inr ((algorithm1, algorithm2), g)))
      else if down_up_scale_algorithms cfg = [] then Inl (IndexError ''down_up_scale_algorithms'')
      else Inr ((hd (down_up_scale_algorithms cfg), last (down_up_scale_algorithms cfg)), g))"

definition apply_scale ::
  "lib \<Rightarrow> config \<Rightarrow> image option \<Rightarrow> rng \<Rightarrow> exn + ((image option \<times> string) \<times> rng)" where
  "apply_scale L cfg im g =
     (case im of
        None \<Rightarrow> Inl (AttributeError ''shape'')
      | Some img \<Rightarrow>
          let h = height img; w = width img;
              new_h = new_size cfg h; new_w = new_size cfg w in
          bindE (choose_algorithm (scale_randomize cfg) (scale_algorithms cfg) g) (\<lambda>(algorithm, g).
            if algorithm = ''down_up'' then
              bindE (choose_down_up cfg g) (\<lambda>((algorithm1, algorithm2), g).
              bindE (uniform_star (scale_range cfg) g) (\<lambda>(scale_factor, g).
              bindE (lookup_interpolation algorithm1) (\<lambda>i1.
              bindE (cv2_resize L im
                       (py_int (fmul (py_float (int w)) scale_factor),
                        py_int (fmul (py_float (int h)) scale_factor)) i1)
                (\<lambda>im.
              bindE (lookup_interpolation algorithm2) (\<lambda>i2.
              bindE (cv2_resize L im (new_w, new_h) i2) (\<lambda>im.
                Inr ((im,
                      if print_to_image cfg then
                        algorithm @ '' scale1factor='' @ format_2f L scale_factor
                          @ '' scale1algorithm='' @ algorithm1
                          @ '' scale2factor='' @ format_2f L (fdiv (size_factor cfg) scale_factor)
                          @ '' scale2algorithm='' @ algorithm2
                      else []), g)))))))
            else
              bindE (lookup_interpolation algorithm) (\<lambda>i.
              bindE (cv2_resize L im (new_w, new_h) i) (\<lambda>im.
                Inr ((im,
                      if print_to_image cfg then
                        algorithm @ '' size factor='' @ repr_float L (size_factor cfg)
                      else []), g)))))"

subsection \<open>The degradation order (lines 254 to 257)\<close>

definition degradation_order :: "config \<Rightarrow> rng \<Rightarrow> string list \<times> rng" where
  "degradation_order cfg g =
     (if degradations_randomize cfg then shuffle (degradations cfg) g
      else (degradations cfg, g))"

subsection \<open>Annotation (lines 43 to 45)\<close>

text \<open>
  \<^verbatim>\<open>cv2.putText(img, text, org, font, fontScale, color, thickness, lineType)\<close> draws
  onto the image and returns it; the font, colour, thickness and line type are the
  constants of line 44 and 45.
\<close>

definition cv2_putText ::
  "image option \<Rightarrow> string \<Rightarrow> int \<times> int \<Rightarrow> rat \<Rightarrow> exn + image option" where
  "cv2_putText im text org fontScale =
     (case im of
        None \<Rightarrow> Inl (cv2_error ''putText'')
      | Some img \<Rightarrow> Inr (Some (img\<lparr>drawn := drawn img @ [(text, org, fontScale)]\<rparr>)))"

definition print_text_to_image ::
  "config \<Rightarrow> image option \<Rightarrow> string \<Rightarrow> int \<Rightarrow> exn + image option" where
  "print_text_to_image cfg im text order =
     cv2_putText im (str_int order @ ''. '' @ text) (10, order * 50) (5 / 4 * size_factor cfg)"

subsection \<open>One image (lines 251 to 276)\<close>

text \<open>
  The loop of lines 258 to 267 carries the working image, the local variable
  \<^verbatim>\<open>text\<close> (unbound until an operator has run: \<open>None\<close>), the list \<^verbatim>\<open>all_text\<close>
  and the random source. Reading an unbound local raises \<^verbatim>\<open>UnboundLocalError\<close>.
\<close>

type_synonym loop_state = "image option \<times> string option \<times> string list \<times> rng"

definition degrade_step :: "lib \<Rightarrow> config \<Rightarrow> loop_state \<Rightarrow> string \<Rightarrow> exn + loop_state" where
  "degrade_step L cfg st degradation =
     (case st of (im, text, all_text, g) \<Rightarrow>
        bindE
          (if degradation = ''blur'' then
             bindE (apply_blur L cfg im g) (\<lambda>((im, text), g). Inr (im, Some text, g))
           else if degradation = ''noise'' then
             bindE (apply_noise L cfg im g) (\<lambda>((im, text), g). Inr (im, Some text, g))
           else if degradation = ''compression'' then
             bindE (apply_compression L cfg im g) (\<lambda>((im, text), g). Inr (im, Some text, g))
           else if degradation = ''scale'' then
             bindE (apply_scale L cfg im g) (\<lambda>((im, text), g). Inr (im, Some text, g))
           else Inr (im, text, g))
          (\<lambda>(im, text, g).
             case text of
               None \<Rightarrow> Inl (UnboundLocalError ''text'')
             | Some t \<Rightarrow> Inr (im, Some t, all_text @ [degradation @ '' '' @ t], g)))"

fun degrade_loop :: "lib \<Rightarrow> config \<Rightarrow> loop_state \<Rightarrow> string list \<Rightarrow> exn + loop_state" where
  "degrade_loop L cfg st [] = Inr st"
| "degrade_loop L cfg st (degradation # rest) =
     bindE (degrade_step L cfg st degradation) (\<lambda>st. degrade_loop L cfg st rest)"

text \<open>Lines 270 and 271: \<^verbatim>\<open>enumerate(all_text, 1)\<close>, from \<open>order\<close> on.\<close>

fun annotate :: "config \<Rightarrow> image option \<Rightarrow> int \<Rightarrow> string list \<Rightarrow> exn + image option" where
  "annotate cfg im order [] = Inr im"
| "annotate cfg im order (text # rest) =
     bindE (print_text_to_image cfg im text order) (\<lambda>im. annotate cfg im (order + 1) rest)"

text \<open>
  \<open>out_path\<close> stands for lines 273 and 274 (\<^verbatim>\<open>os.path.join\<close>, \<^verbatim>\<open>relpath\<close>,
  \<^verbatim>\<open>splitext\<close>), \<open>makedirs\<close> for line 275 on the directory of that path.
  \<^verbatim>\<open>cv2.imwrite\<close> raises on \<^verbatim>\<open>None\<close>. The result is the file written.
\<close>

definition process_image ::
  "lib \<Rightarrow> config \<Rightarrow> string \<Rightarrow> rng \<Rightarrow> exn + ((string \<times> image) \<times> rng)" where
  "process_image L cfg image_path g =
     (let im = imread L image_path in
      case degradation_order cfg g of (order, g) \<Rightarrow>
        bindE (degrade_loop L cfg (im, None, [], g) order) (\<lambda>(im, text, all_text, g).
        bindE (if print_to_image cfg then annotate cfg im 1 all_text else Inr im) (\<lambda>im.
        let output_path =
              out_path L (output_folder cfg) (input_folder cfg) image_path (output_format cfg) in
        case makedirs L output_path of
          Some e \<Rightarrow> Inl e
        | None \<Rightarrow>
            (case im of
               None \<Rightarrow> Inl (cv2_error ''imwrite'')
             | Some img \<Rightarrow>
                 (case imwrite L output_path img of
                    Some e \<Rightarrow> Inl e
                  | None \<Rightarrow> Inr ((output_path, img), g))))))"

subsection \<open>A small instance for running the model\<close>

text \<open>
  A 2 by 2 image and a 10 by 90 image of one colour, a random source that repeats one
  raw draw, a configuration, and stand-ins for the libraries: filters that keep the samples, a
  resize that fills the target with the first sample, codecs that pass the bytes through,
  float formatters that print a placeholder, and a file system where only
  \<^verbatim>\<open>in/a.png\<close> is an image.
\<close>

definition const_rng :: "nat \<Rightarrow> rng" where
  "const_rng r = (\<lambda>_. r)"

definition example_image :: image where
  "example_image = \<lparr>height = 2, width = 2, data = replicate 12 200, drawn = []\<rparr>"

definition wide_image :: image where
  "wide_image = \<lparr>height = 10, width = 90, data = replicate 2700 200, drawn = []\<rparr>"

definition example_lib :: lib where
  "example_lib =
     \<lparr>imread = (\<lambda>p. if p = ''in/a.png'' then Some example_image else None),
      blur = (\<lambda>img k. if fst k \<le> 0 \<or> snd k \<le> 0 then Inl (cv2_error ''blur'') else Inr (data img)),
      GaussianBlur = (\<lambda>img k sx sy.
         if fst k \<le> 0 \<or> snd k \<le> 0 \<or> even (fst k) \<or> even (snd k)
         then Inl (cv2_error ''GaussianBlur'') else Inr (data img)),
      resize = (\<lambda>img d i. Inr (replicate (nat (fst d) * nat (snd d) * 3) (hd (data img)))),
      imencode = (\<lambda>ext img ps. Inr (data img)),
      imdecode = (\<lambda>bs. None),
      ffmpeg_encode = (\<lambda>container codec args s bs. Inr bs),
      ffmpeg_decode = (\<lambda>container bs. Inr (bs, [])),
      std_normal = (\<lambda>r. of_nat r),
      repr_float = (\<lambda>x. ''<float>''),
      format_2f = (\<lambda>x. ''<float>''),
      out_path = (\<lambda>out inp p fmt. out @ ''/a.'' @ fmt),
      makedirs = (\<lambda>d. None),
      imwrite = (\<lambda>p img. None)\<rparr>"

definition example_config :: config where
  "example_config =
     \<lparr>input_folder = ''in'', output_folder = ''out'', output_format = ''png'',
      degradations = [''blur'', ''noise'', ''compression'', ''scale''],
      degradations_randomize = False,
      blur_algorithms = [''gaussian''], blur_randomize = False, blur_range = [3, 4],
      noise_algorithms = [''color''], noise_randomize = False, noise_range = [50, 50],
      compression_algorithms = [''h264''], compression_randomize = False,
      jpeg_quality_range = [50, 90], webp_quality_range = [50, 90],
      h264_crf_level_range = [20, 30], hevc_crf_level_range = [20, 30],
      mpegbitrate = Some ''500k'', mpeg2bitrate = Some ''4M'',
      size_factor = 1 / 2,
      scale_algorithms = [''down_up''], down_up_scale_algorithms = [''nearest'', ''bilinear''],
      scale_randomize = False, scale_range = [1, 2],
      print_to_image = True\<rparr>"

section \<open>Properties\<close>

lemma mset_swap_list: "i < length xs \<Longrightarrow> j < length xs \<Longrightarrow> mset (swap xs i j) = mset xs"
  unfolding swap_def by (simp add: mset_swap)

lemma length_swap [simp]: "length (swap xs i j) = length xs"
  by (simp add: swap_def)

lemma randbelow_less: "0 < n \<Longrightarrow> fst (randbelow n g) < n"
  by (simp add: randbelow_def next_raw_def)

lemma mset_shuffle_from:
  "k < length xs \<Longrightarrow> mset (fst (shuffle_from k xs g)) = mset xs"
proof (induction k arbitrary: xs g)
  case 0
  then show ?case by simp
next
  case (Suc k)
  obtain j g' where r: "randbelow (Suc k + 1) g = (j, g')"
    by (cases "randbelow (Suc k + 1) g")
  have "j < Suc k + 1"
    using randbelow_less [of "Suc k + 1" g] r by simp
  with Suc.prems have j: "j < length xs" by simp
  have "mset (fst (shuffle_from k (swap xs (Suc k) j) g')) = mset (swap xs (Suc k) j)"
    using Suc.prems by (intro Suc.IH) simp
  also have "\<dots> = mset xs"
    using Suc.prems j by (simp add: mset_swap_list)
  finally show ?case using r by simp
qed

lemma mset_shuffle: "mset (fst (shuffle xs g)) = mset xs"
proof (cases xs)
  case Nil
  then show ?thesis by (simp add: shuffle_def)
next
  case (Cons a as)
  then show ?thesis by (simp add: shuffle_def mset_shuffle_from)
qed

subsection \<open>The degradation order\<close>

text \<open>
  C1. The order that \<open>process_image\<close> uses is a permutation of the configured
  degradation list: it has the same multiset of names and the same length, with
  randomization on or off. With randomization off it is the configured list itself.
\<close>

theorem degradation_order_permutation:
  "mset (fst (degradation_order cfg g)) = mset (degradations cfg)
   \<and> length (fst (degradation_order cfg g)) = length (degradations cfg)
   \<and> (\<not> degradations_randomize cfg \<longrightarrow> fst (degradation_order cfg g) = degradations cfg)"
proof -
  have m: "mset (fst (degradation_order cfg g)) = mset (degradations cfg)"
    by (simp add: degradation_order_def mset_shuffle)
  from m have "size (mset (fst (degradation_order cfg g))) = size (mset (degradations cfg))"
    by simp
  then have l: "length (fst (degradation_order cfg g)) = length (degradations cfg)"
    by simp
  show ?thesis using m l by (simp add: degradation_order_def)
qed

theorem degradation_order_permutation_witness:
  "\<not> degradations_randomize example_config
   \<and> fst (degradation_order example_config (const_rng 0)) = degradations example_config
   \<and> fst (degradation_order (example_config\<lparr>degradations_randomize := True\<rparr>) (const_rng 0))
       = [''noise'', ''compression'', ''scale'', ''blur'']
   \<and> mset [''noise'', ''compression'', ''scale'', ''blur'']
       = mset (degradations example_config)"
proof -
  have a: "\<not> degradations_randomize example_config"
    by (simp add: example_config_def)
  have b: "fst (degradation_order (example_config\<lparr>degradations_randomize := True\<rparr>) (const_rng 0))
       = [''noise'', ''compression'', ''scale'', ''blur'']"
    by code_simp
  show ?thesis
    using a b degradation_order_permutation [of example_config "const_rng 0"]
      degradation_order_permutation
        [of "example_config\<lparr>degradations_randomize := True\<rparr>" "const_rng 0"]
    by simp
qed

subsection \<open>Kernel sizes of the blur operator\<close>

lemma gaussian_ksize_eq: "gaussian_ksize k = (if odd k then k else k + 1)"
  by (simp add: gaussian_ksize_def or_one_eq)

lemma py_int_half: "py_int (of_int n + 1 / 2) = (if 0 \<le> n then n else n + 1)"
proof (cases "0 \<le> n")
  case True
  then have "(0::rat) \<le> of_int n + 1 / 2" by simp
  moreover have "\<lfloor>(of_int n :: rat) + 1 / 2\<rfloor> = n" by (simp add: floor_unique)
  ultimately show ?thesis using True by (simp add: py_int_def)
next
  case False
  then have "n \<le> -1" by simp
  then have "(of_int n :: rat) \<le> -1" by (metis of_int_le_iff of_int_minus of_int_1)
  then have "\<not> (0::rat) \<le> of_int n + 1 / 2" by simp
  moreover have "\<lceil>(of_int n :: rat) + 1 / 2\<rceil> = n + 1" by (simp add: ceiling_unique)
  ultimately show ?thesis using False by (simp add: py_int_def)
qed

lemma sigma_ksize_eq: "sigma_ksize k = (if 0 \<le> k then 8 * k + 1 else 8 * k + 3)"
  unfolding sigma_ksize_def py_int_half by simp

lemma floor_half: "\<lfloor>4 * (of_int k :: rat) + 1 / 2\<rfloor> = 4 * k"
  by (rule floor_unique) simp_all

text \<open>
  C5, as amended. The kernel sizes that the gaussian, isotropic and anisotropic
  algorithms derive from a sampled integer are odd for every integer. For every
  sampled integer that is not negative they are at least 1, and the isotropic and
  anisotropic size is \<open>2 * floor (4 * sigma + 0.5) + 1\<close>.
\<close>

theorem blur_kernel_sizes:
  "odd (gaussian_ksize k) \<and> odd (sigma_ksize k)
   \<and> (0 \<le> k \<longrightarrow> 1 \<le> gaussian_ksize k \<and> 1 \<le> sigma_ksize k
        \<and> sigma_ksize k = 2 * \<lfloor>4 * (of_int k :: rat) + 1 / 2\<rfloor> + 1)"
proof -
  have "0 \<le> k \<Longrightarrow> odd k \<Longrightarrow> 1 \<le> k"
    by (cases "k = 0") simp_all
  then show ?thesis
    by (auto simp add: gaussian_ksize_eq sigma_ksize_eq floor_half)
qed

theorem blur_kernel_sizes_witness:
  "(0::int) \<le> 3 \<and> gaussian_ksize 3 = 3 \<and> gaussian_ksize 4 = 5 \<and> sigma_ksize 3 = 25
   \<and> 2 * \<lfloor>4 * (of_int 3 :: rat) + 1 / 2\<rfloor> + 1 = (25::int)"
  using blur_kernel_sizes [of 3] blur_kernel_sizes [of 4]
  by (simp add: gaussian_ksize_eq sigma_ksize_eq)

text \<open>
  The claim as first stated fails for a negative sample: the blur range \<open>(-1, -1)\<close>
  gives the sample \<open>-1\<close>, and the derived sizes are \<open>-5\<close> and \<open>-1\<close>, below 1;
  \<^verbatim>\<open>int\<close> truncates \<open>-3.5\<close> to \<open>-3\<close>, where the floor is \<open>-4\<close>.
\<close>

theorem blur_kernel_negative_sample:
  "map_sum id fst (randint_star [-1, -1] (const_rng 0)) = Inr (-1)
   \<and> sigma_ksize (-1) = -5 \<and> gaussian_ksize (-1) = -1
   \<and> \<not> 1 \<le> sigma_ksize (-1) \<and> \<not> 1 \<le> gaussian_ksize (-1)
   \<and> 2 * \<lfloor>4 * (of_int (-1) :: rat) + 1 / 2\<rfloor> + 1 = (-7::int)"
  using floor_half [of "-1"]
  by (simp add: gaussian_ksize_eq sigma_ksize_eq randint_star_def randint_def
      randbelow_def next_raw_def const_rng_def)

lemma randint_star_const:
  "lo \<le> hi \<Longrightarrow>
   randint_star [lo, hi] (const_rng (nat (hi - lo))) = Inr (hi, const_rng (nat (hi - lo)))"
proof -
  assume le: "lo \<le> hi"
  then have "nat (hi - lo) < nat (hi - lo + 1)" by simp
  then have "nat (hi - lo) mod nat (hi - lo + 1) = nat (hi - lo)" by simp
  with le show ?thesis
    by (simp add: randint_star_def randint_def randbelow_def next_raw_def const_rng_def)
qed

lemma choose_algorithm_single:
  "choose_algorithm r [a] (const_rng n) = Inr (a, const_rng n)"
  by (simp add: choose_algorithm_def choice_def randbelow_def next_raw_def const_rng_def)

lemma apply_blur_gaussian:
  assumes "choose_algorithm (blur_randomize cfg) (blur_algorithms cfg) g = Inr (''gaussian'', g1)"
    and "randint_star (blur_range cfg) g1 = Inr (k, g2)"
  shows "apply_blur L cfg im g =
           bindE (cv2_GaussianBlur L im (gaussian_ksize k, gaussian_ksize k) 0 0)
             (\<lambda>im'. Inr ((im', ''gaussian ksize='' @ str_int (gaussian_ksize k)), g2))"
  using assms by (simp add: apply_blur_def bindE_def Let_def)

text \<open>
  C9. The gaussian algorithm uses the sampled integer with its lowest bit set: the
  sample itself when it is odd, the sample plus one when it is even. When the upper
  bound of the blur range is even, a run that samples the upper bound blurs with a
  kernel one larger than the bound.
\<close>

theorem gaussian_kernel_exceeds_range:
  "gaussian_ksize k = (if odd k then k else k + 1)
   \<and> (blur_algorithms cfg = [''gaussian''] \<and> blur_range cfg = [lo, hi] \<and> lo \<le> hi \<and> even hi
        \<longrightarrow> apply_blur L cfg im (const_rng (nat (hi - lo))) =
              bindE (cv2_GaussianBlur L im (hi + 1, hi + 1) 0 0)
                (\<lambda>im'. Inr ((im', ''gaussian ksize='' @ str_int (hi + 1)),
                             const_rng (nat (hi - lo)))))"
proof (intro conjI impI)
  show "gaussian_ksize k = (if odd k then k else k + 1)"
    by (rule gaussian_ksize_eq)
next
  assume a: "blur_algorithms cfg = [''gaussian''] \<and> blur_range cfg = [lo, hi] \<and> lo \<le> hi \<and> even hi"
  let ?g = "const_rng (nat (hi - lo))"
  have c: "choose_algorithm (blur_randomize cfg) (blur_algorithms cfg) ?g = Inr (''gaussian'', ?g)"
    using a by (simp add: choose_algorithm_single)
  have r: "randint_star (blur_range cfg) ?g = Inr (hi, ?g)"
    using a by (simp add: randint_star_const)
  have k: "gaussian_ksize hi = hi + 1"
    using a by (simp add: gaussian_ksize_eq)
  show "apply_blur L cfg im ?g =
          bindE (cv2_GaussianBlur L im (hi + 1, hi + 1) 0 0)
            (\<lambda>im'. Inr ((im', ''gaussian ksize='' @ str_int (hi + 1)), ?g))"
    using apply_blur_gaussian [OF c r, of L im] k by simp
qed

lemma str_int_5: "str_int 5 = ''5''"
  by code_simp

theorem gaussian_kernel_exceeds_range_witness:
  "blur_algorithms example_config = [''gaussian''] \<and> blur_range example_config = [3, 4]
   \<and> (3::int) \<le> 4 \<and> even (4::int) \<and> gaussian_ksize 4 = 5
   \<and> apply_blur example_lib example_config (Some example_image) (const_rng 1)
       = Inr ((Some example_image, ''gaussian ksize=5''), const_rng 1)"
proof -
  have a: "blur_algorithms example_config = [''gaussian''] \<and> blur_range example_config = [3, 4]"
    by (simp add: example_config_def)
  have b: "cv2_GaussianBlur example_lib (Some example_image) (5, 5) 0 0 = Inr (Some example_image)"
    by (simp add: cv2_GaussianBlur_def example_lib_def example_image_def bindE_def)
  show ?thesis
    using a b gaussian_kernel_exceeds_range [of 4 example_config 3 4 example_lib "Some example_image"]
    by (simp add: bindE_def str_int_5)
qed

subsection \<open>Names in the order that are no degradation\<close>

lemma degrade_step_unknown:
  "d \<notin> set [''blur'', ''noise'', ''compression'', ''scale''] \<Longrightarrow>
   degrade_step L cfg (im, text, all_text, g) d =
     (case text of
        None \<Rightarrow> Inl (UnboundLocalError ''text'')
      | Some t \<Rightarrow> Inr (im, Some t, all_text @ [d @ '' '' @ t], g))"
  by (simp add: degrade_step_def bindE_def)

lemma degrade_step_records:
  "degrade_step L cfg (im, text, all_text, g) d = Inr (im', text', all_text', g') \<Longrightarrow>
   \<exists>t. text' = Some t \<and> all_text' = all_text @ [d @ '' '' @ t]"
  by (auto simp add: degrade_step_def bindE_def split: if_splits sum.splits option.splits)

text \<open>
  C10. A name in the degradation order that is not blur, noise, compression or scale
  runs no operator: the working image and the random source are unchanged. The step
  still appends a line, built from the description that the step before left in
  \<open>text\<close>. When such a name comes first, \<open>text\<close> is unbound and
  \<open>process_image\<close> fails at that step.
\<close>

theorem unknown_degradation_step:
  "d \<notin> set [''blur'', ''noise'', ''compression'', ''scale''] \<Longrightarrow>
     (degrade_step L cfg st0 d0 = Inr st1 \<longrightarrow>
        (\<exists>im t a g. st1 = (im, Some t, a @ [d0 @ '' '' @ t], g)
           \<and> degrade_step L cfg st1 d
               = Inr (im, Some t, a @ [d0 @ '' '' @ t, d @ '' '' @ t], g)))
     \<and> degrade_step L cfg (im0, None, all_text, g0) d = Inl (UnboundLocalError ''text'')
     \<and> (fst (degradation_order cfg g0) = d # rest \<longrightarrow>
            process_image L cfg image_path g0 = Inl (UnboundLocalError ''text''))"
proof (intro impI conjI)
  assume d: "d \<notin> set [''blur'', ''noise'', ''compression'', ''scale'']"
  show "degrade_step L cfg (im0, None, all_text, g0) d = Inl (UnboundLocalError ''text'')"
    using degrade_step_unknown [OF d] by simp
  show "\<exists>im t a g. st1 = (im, Some t, a @ [d0 @ '' '' @ t], g)
           \<and> degrade_step L cfg st1 d
               = Inr (im, Some t, a @ [d0 @ '' '' @ t, d @ '' '' @ t], g)"
    if s: "degrade_step L cfg st0 d0 = Inr st1"
  proof -
    obtain a b c e where st0: "st0 = (a, b, c, e)" by (cases st0)
    obtain im text' all' g where st1: "st1 = (im, text', all', g)" by (cases st1)
    from degrade_step_records [of L cfg a b c e d0 im text' all' g] s st0 st1
    obtain t where t: "text' = Some t" "all' = c @ [d0 @ '' '' @ t]" by auto
    have "degrade_step L cfg st1 d = Inr (im, Some t, c @ [d0 @ '' '' @ t, d @ '' '' @ t], g)"
      using degrade_step_unknown [OF d, of L cfg im text' all' g] st1 t by simp
    with st1 t show ?thesis by blast
  qed
  show "process_image L cfg image_path g0 = Inl (UnboundLocalError ''text'')"
    if o: "fst (degradation_order cfg g0) = d # rest"
  proof -
    obtain g1 where o': "degradation_order cfg g0 = (d # rest, g1)"
      using o by (cases "degradation_order cfg g0") simp
    have "degrade_loop L cfg (imread L image_path, None, [], g1) (d # rest)
            = Inl (UnboundLocalError ''text'')"
      using degrade_step_unknown [OF d, of L cfg "imread L image_path" None "[]" g1]
      by (simp add: bindE_def)
    then show ?thesis
      using o' by (simp add: process_image_def bindE_def Let_def)
  qed
qed

theorem unknown_degradation_step_witness:
  "''sharpen'' \<notin> set [''blur'', ''noise'', ''compression'', ''scale'']
   \<and> degrade_step example_lib example_config (Some example_image, None, [], const_rng 0) ''blur''
       = Inr (Some example_image, Some ''gaussian ksize=3'', [''blur gaussian ksize=3''], const_rng 0)
   \<and> degrade_step example_lib example_config
         (Some example_image, Some ''gaussian ksize=3'', [''blur gaussian ksize=3''], const_rng 0)
         ''sharpen''
       = Inr (Some example_image, Some ''gaussian ksize=3'',
              [''blur gaussian ksize=3'', ''sharpen gaussian ksize=3''], const_rng 0)
   \<and> process_image example_lib (example_config\<lparr>degradations := [''sharpen'', ''blur'']\<rparr>)
         ''in/a.png'' (const_rng 0)
       = Inl (UnboundLocalError ''text'')"
proof -
  have d: "''sharpen'' \<notin> set [''blur'', ''noise'', ''compression'', ''scale'']"
    by simp
  have c: "choose_algorithm (blur_randomize example_config) (blur_algorithms example_config)
             (const_rng 0) = Inr (''gaussian'', const_rng 0)"
    by (simp add: example_config_def choose_algorithm_def)
  have r: "randint_star (blur_range example_config) (const_rng 0) = Inr (3, const_rng 0)"
    by (simp add: example_config_def randint_star_def randint_def randbelow_def next_raw_def
        const_rng_def)
  have k: "gaussian_ksize 3 = 3"
    by (simp add: gaussian_ksize_eq)
  have s3: "str_int 3 = ''3''"
    by code_simp
  have b: "cv2_GaussianBlur example_lib (Some example_image) (3, 3) 0 0 = Inr (Some example_image)"
    by (simp add: cv2_GaussianBlur_def example_lib_def example_image_def bindE_def)
  have s: "degrade_step example_lib example_config (Some example_image, None, [], const_rng 0)
             ''blur''
           = Inr (Some example_image, Some ''gaussian ksize=3'', [''blur gaussian ksize=3''],
                  const_rng 0)"
    using apply_blur_gaussian [OF c r, of example_lib "Some example_image"] k s3 b
    by (simp add: degrade_step_def bindE_def)
  have o: "fst (degradation_order (example_config\<lparr>degradations := [''sharpen'', ''blur'']\<rparr>)
             (const_rng 0)) = ''sharpen'' # [''blur'']"
    by (simp add: degradation_order_def example_config_def)
  show ?thesis
    using d s o
      unknown_degradation_step [OF d, of example_lib example_config
        "(Some example_image, None, [], const_rng 0)" "''blur''"
        "(Some example_image, Some ''gaussian ksize=3'', [''blur gaussian ksize=3''], const_rng 0)"]
      unknown_degradation_step [OF d, of example_lib
        "example_config\<lparr>degradations := [''sharpen'', ''blur'']\<rparr>" _ _ _ _ _ "const_rng 0"
        "[''blur'']" "''in/a.png''"]
    by simp
qed

subsection \<open>Algorithm names without an implementation\<close>

lemma lookup_interpolation_unknown:
  "a \<notin> set [''bicubic'', ''bilinear'', ''box'', ''nearest'', ''lanczos''] \<Longrightarrow>
   lookup_interpolation a = Inl (KeyError a)"
  by (simp add: lookup_interpolation_def interpolation_map_def)

text \<open>
  C7, as amended. An algorithm name that no branch of the operator implements is not
  an error in Blur, Noise and Compression: the operator returns the image as it got it,
  with the empty description, and the pipeline goes on. Only Scale raises, with the
  \<^verbatim>\<open>KeyError\<close> of its interpolation table.
\<close>

theorem unknown_algorithm_name:
  "(choose_algorithm (blur_randomize cfg) (blur_algorithms cfg) g = Inr (a, g1)
      \<and> a \<notin> set [''average'', ''gaussian'', ''isotropic'', ''anisotropic'']
      \<longrightarrow> apply_blur L cfg im g = Inr ((im, []), g1))
   \<and> (choose_algorithm (noise_randomize cfg) (noise_algorithms cfg) g = Inr (a, g1)
      \<and> a \<notin> set [''uniform'', ''gaussian'', ''color'', ''gray'']
      \<longrightarrow> apply_noise L cfg im g = Inr ((im, []), g1))
   \<and> (choose_algorithm (compression_randomize cfg) (compression_algorithms cfg) g = Inr (a, g1)
      \<and> a \<notin> set [''jpeg'', ''webp'', ''h264'', ''hevc'', ''mpeg'', ''mpeg2'']
      \<longrightarrow> apply_compression L cfg im g = Inr ((im, []), g1))
   \<and> (choose_algorithm (scale_randomize cfg) (scale_algorithms cfg) g = Inr (a, g1)
      \<and> a \<notin> set [''bicubic'', ''bilinear'', ''box'', ''nearest'', ''lanczos'', ''down_up'']
      \<longrightarrow> apply_scale L cfg (Some img) g = Inl (KeyError a))"
proof (intro conjI impI)
  assume "choose_algorithm (blur_randomize cfg) (blur_algorithms cfg) g = Inr (a, g1)
      \<and> a \<notin> set [''average'', ''gaussian'', ''isotropic'', ''anisotropic'']"
  then show "apply_blur L cfg im g = Inr ((im, []), g1)"
    by (simp add: apply_blur_def bindE_def)
next
  assume "choose_algorithm (noise_randomize cfg) (noise_algorithms cfg) g = Inr (a, g1)
      \<and> a \<notin> set [''uniform'', ''gaussian'', ''color'', ''gray'']"
  then show "apply_noise L cfg im g = Inr ((im, []), g1)"
    by (simp add: apply_noise_def bindE_def)
next
  assume "choose_algorithm (compression_randomize cfg) (compression_algorithms cfg) g = Inr (a, g1)
      \<and> a \<notin> set [''jpeg'', ''webp'', ''h264'', ''hevc'', ''mpeg'', ''mpeg2'']"
  then show "apply_compression L cfg im g = Inr ((im, []), g1)"
    by (simp add: apply_compression_def bindE_def)
next
  assume h: "choose_algorithm (scale_randomize cfg) (scale_algorithms cfg) g = Inr (a, g1)
      \<and> a \<notin> set [''bicubic'', ''bilinear'', ''box'', ''nearest'', ''lanczos'', ''down_up'']"
  then have "lookup_interpolation a = Inl (KeyError a)"
    by (intro lookup_interpolation_unknown) simp
  with h show "apply_scale L cfg (Some img) g = Inl (KeyError a)"
    by (simp add: apply_scale_def bindE_def Let_def)
qed

theorem unknown_algorithm_name_witness:
  "apply_blur example_lib (example_config\<lparr>blur_algorithms := [''median'']\<rparr>)
       (Some example_image) (const_rng 0) = Inr ((Some example_image, []), const_rng 0)
   \<and> apply_noise example_lib (example_config\<lparr>noise_algorithms := [''speckle'']\<rparr>)
       (Some example_image) (const_rng 0) = Inr ((Some example_image, []), const_rng 0)
   \<and> apply_compression example_lib (example_config\<lparr>compression_algorithms := [''av1'']\<rparr>)
       (Some example_image) (const_rng 0) = Inr ((Some example_image, []), const_rng 0)
   \<and> apply_scale example_lib (example_config\<lparr>scale_algorithms := [''spline'']\<rparr>)
       (Some example_image) (const_rng 0) = Inl (KeyError ''spline'')"
proof -
  have 1: "choose_algorithm (blur_randomize (example_config\<lparr>blur_algorithms := [''median'']\<rparr>))
             (blur_algorithms (example_config\<lparr>blur_algorithms := [''median'']\<rparr>)) (const_rng 0)
           = Inr (''median'', const_rng 0)"
    by (simp add: choose_algorithm_single)
  have 2: "choose_algorithm (noise_randomize (example_config\<lparr>noise_algorithms := [''speckle'']\<rparr>))
             (noise_algorithms (example_config\<lparr>noise_algorithms := [''speckle'']\<rparr>)) (const_rng 0)
           = Inr (''speckle'', const_rng 0)"
    by (simp add: choose_algorithm_single)
  have 3: "choose_algorithm
             (compression_randomize (example_config\<lparr>compression_algorithms := [''av1'']\<rparr>))
             (compression_algorithms (example_config\<lparr>compression_algorithms := [''av1'']\<rparr>))
             (const_rng 0)
           = Inr (''av1'', const_rng 0)"
    by (simp add: choose_algorithm_single)
  have 4: "choose_algorithm (scale_randomize (example_config\<lparr>scale_algorithms := [''spline'']\<rparr>))
             (scale_algorithms (example_config\<lparr>scale_algorithms := [''spline'']\<rparr>)) (const_rng 0)
           = Inr (''spline'', const_rng 0)"
    by (simp add: choose_algorithm_single)
  show ?thesis
    using 1 2 3 4
      unknown_algorithm_name [of "example_config\<lparr>blur_algorithms := [''median'']\<rparr>"
        "const_rng 0" "''median''" "const_rng 0" example_lib "Some example_image"]
      unknown_algorithm_name [of "example_config\<lparr>noise_algorithms := [''speckle'']\<rparr>"
        "const_rng 0" "''speckle''" "const_rng 0" example_lib "Some example_image"]
      unknown_algorithm_name [of "example_config\<lparr>compression_algorithms := [''av1'']\<rparr>"
        "const_rng 0" "''av1''" "const_rng 0" example_lib "Some example_image"]
      unknown_algorithm_name [of "example_config\<lparr>scale_algorithms := [''spline'']\<rparr>"
        "const_rng 0" "''spline''" "const_rng 0" example_lib _ example_image]
    by simp
qed

text \<open>
  The claim as first stated fails for Blur: with the blur algorithm \<^verbatim>\<open>median\<close>
  the operator returns the image unchanged and \<open>process_image\<close> writes it.
\<close>

theorem unknown_blur_algorithm_continues:
  "apply_blur example_lib (example_config\<lparr>blur_algorithms := [''median'']\<rparr>)
       (Some example_image) (const_rng 0) = Inr ((Some example_image, []), const_rng 0)
   \<and> process_image example_lib
        (example_config\<lparr>blur_algorithms := [''median''], degradations := [''blur''],
           print_to_image := False\<rparr>) ''in/a.png'' (const_rng 0)
       = Inr ((''out/a.png'', example_image), const_rng 0)"
proof -
  have 1: "apply_blur example_lib (example_config\<lparr>blur_algorithms := [''median'']\<rparr>)
       (Some example_image) (const_rng 0) = Inr ((Some example_image, []), const_rng 0)"
    by (simp add: apply_blur_def bindE_def choose_algorithm_single)
  have 2: "apply_blur example_lib
        (example_config\<lparr>blur_algorithms := [''median''], degradations := [''blur''],
           print_to_image := False\<rparr>)
       (Some example_image) (const_rng 0) = Inr ((Some example_image, []), const_rng 0)"
    by (simp add: apply_blur_def bindE_def choose_algorithm_single)
  have 3: "process_image example_lib
        (example_config\<lparr>blur_algorithms := [''median''], degradations := [''blur''],
           print_to_image := False\<rparr>) ''in/a.png'' (const_rng 0)
       = Inr ((''out/a.png'', example_image), const_rng 0)"
    using 2
    by (simp add: process_image_def degradation_order_def degrade_step_def bindE_def
        example_config_def example_lib_def)
  show ?thesis using 1 3 by simp
qed

subsection \<open>The byte count of the video path\<close>

lemma output_args_nonempty:
  "a \<in> set [''h264'', ''hevc'', ''mpeg'', ''mpeg2''] \<Longrightarrow>
   output_args_of cfg a g = Inr (args, g') \<Longrightarrow> args \<noteq> []"
  by (auto simp add: output_args_of_def bindE_def split: sum.splits option.splits)

lemma apply_compression_video:
  assumes "choose_algorithm (compression_randomize cfg) (compression_algorithms cfg) g
             = Inr (a, g1)"
    and "a \<in> set [''h264'', ''hevc'', ''mpeg'', ''mpeg2'']"
    and "output_args_of cfg a g1 = Inr (args, g2)"
    and "ffmpeg_encode L ''mpeg'' (codec_of a) args (width img, height img) (data img) = Inr enc"
    and "ffmpeg_decode L ''mpeg'' enc = Inr (out, err)"
  shows "apply_compression L cfg (Some img) g =
           bindE (frombuffer_reshape out (height img) (width img))
             (\<lambda>img'. Inr ((Some img', a @ '' '' @ fst (hd args) @ ''='' @ snd (hd args)), g2))"
proof -
  have ne: "args \<noteq> []"
    using assms(2,3) by (rule output_args_nonempty)
  then obtain x xs where x: "args = x # xs" by (cases args) auto
  have j: "a \<noteq> ''jpeg''" "a \<noteq> ''webp''"
    using assms(2) by auto
  show ?thesis
    using assms j x
    by (simp add: apply_compression_def bindE_def Let_def del: set_simps split: sum.splits)
qed

lemma randint_star_20_30: "randint_star [20, 30] (const_rng 2) = Inr (22, const_rng 2)"
  by (simp add: randint_star_def randint_def randbelow_def next_raw_def const_rng_def)

lemma str_int_22: "str_int 22 = ''22''"
  by code_simp

text \<open>
  C2. On the video path (h264, hevc, mpeg, mpeg2), when the decoder's output does not
  hold exactly \<open>height * width * 3\<close> bytes, the operator raises the
  \<^verbatim>\<open>ValueError\<close> of the reshape and returns no image. When the count matches, the
  image is the decoded bytes as they are, in the shape of the input.
\<close>

theorem video_codec_byte_count:
  assumes "choose_algorithm (compression_randomize cfg) (compression_algorithms cfg) g
             = Inr (a, g1)"
    and "a \<in> set [''h264'', ''hevc'', ''mpeg'', ''mpeg2'']"
    and "output_args_of cfg a g1 = Inr (args, g2)"
    and "ffmpeg_encode L ''mpeg'' (codec_of a) args (width img, height img) (data img) = Inr enc"
    and "ffmpeg_decode L ''mpeg'' enc = Inr (out, err)"
  shows "(length out \<noteq> height img * width img * 3 \<longrightarrow>
            apply_compression L cfg (Some img) g = Inl (ValueError ''reshape''))
       \<and> (length out = height img * width img * 3 \<longrightarrow>
            (\<exists>text. apply_compression L cfg (Some img) g =
               Inr ((Some \<lparr>height = height img, width = width img, data = out, drawn = []\<rparr>,
                     text), g2)))"
  unfolding apply_compression_video [OF assms]
  by (simp add: frombuffer_reshape_def bindE_def)


theorem video_codec_byte_count_witness:
  "apply_compression
      (example_lib\<lparr>ffmpeg_decode := (\<lambda>container bs. Inr (take 5 bs, ''Invalid data''))\<rparr>)
      example_config (Some example_image) (const_rng 2) = Inl (ValueError ''reshape'')
   \<and> (\<exists>text. apply_compression example_lib example_config (Some example_image) (const_rng 2)
         = Inr ((Some example_image, text), const_rng 2))"
proof -
  let ?L = "example_lib\<lparr>ffmpeg_decode := (\<lambda>container bs. Inr (take 5 bs, ''Invalid data''))\<rparr>"
  have c: "choose_algorithm (compression_randomize example_config)
             (compression_algorithms example_config) (const_rng 2) = Inr (''h264'', const_rng 2)"
    by (simp add: example_config_def choose_algorithm_def)
  have a: "''h264'' \<in> set [''h264'', ''hevc'', ''mpeg'', ''mpeg2'']"
    by simp
  have args: "output_args_of example_config ''h264'' (const_rng 2)
                = Inr ([(''crf'', ''22'')], const_rng 2)"
    by (simp add: output_args_of_def example_config_def randint_star_20_30 bindE_def str_int_22)
  have enc1: "ffmpeg_encode ?L ''mpeg'' (codec_of ''h264'') [(''crf'', ''22'')]
                (width example_image, height example_image) (data example_image)
              = Inr (data example_image)"
    by (simp add: example_lib_def)
  have dec1: "ffmpeg_decode ?L ''mpeg'' (data example_image)
              = Inr (take 5 (data example_image), ''Invalid data'')"
    by simp
  have enc2: "ffmpeg_encode example_lib ''mpeg'' (codec_of ''h264'') [(''crf'', ''22'')]
                (width example_image, height example_image) (data example_image)
              = Inr (data example_image)"
    by (simp add: example_lib_def)
  have dec2: "ffmpeg_decode example_lib ''mpeg'' (data example_image)
              = Inr (data example_image, [])"
    by (simp add: example_lib_def)
  have img: "\<lparr>height = height example_image, width = width example_image,
              data = data example_image, drawn = []\<rparr> = example_image"
    by (simp add: example_image_def)
  show ?thesis
    using video_codec_byte_count [OF c a args enc1 dec1]
      video_codec_byte_count [OF c a args enc2 dec2] img
    by (simp add: example_image_def)
qed

subsection \<open>The size of a scaled image\<close>

lemma py_int_pos_floor: "0 < py_int x \<Longrightarrow> py_int x = \<lfloor>x\<rfloor>"
proof (cases "0 \<le> x")
  case True
  then show ?thesis by (simp add: py_int_def)
next
  case False
  then have "\<lceil>x\<rceil> \<le> 0" by (simp add: ceiling_le_iff)
  moreover assume "0 < py_int x"
  ultimately show ?thesis using False by (simp add: py_int_def)
qed

lemma cv2_resize_shape:
  "cv2_resize L im (w, h) i = Inr im' \<Longrightarrow>
   \<exists>img'. im' = Some img' \<and> int (height img') = h \<and> int (width img') = w \<and> 0 < h \<and> 0 < w"
  by (auto simp add: cv2_resize_def bindE_def split: option.splits if_splits sum.splits)

lemma apply_scale_final_resize:
  "apply_scale L cfg (Some img) g = Inr ((im', text), g') \<Longrightarrow>
   \<exists>im0 i. cv2_resize L im0 (new_size cfg (width img), new_size cfg (height img)) i = Inr im'"
  by (auto simp add: apply_scale_def bindE_def Let_def split: sum.splits if_splits prod.splits)

text \<open>
  C3. Whenever the Scale operator returns, with a simple algorithm or with
  \<^verbatim>\<open>down_up\<close>, the result has the height \<open>int(h * size_factor)\<close> and the width
  \<open>int(w * size_factor)\<close>: the product of the two doubles, cut off at the integer below
  (both are positive when the resize succeeds), not rounded.
\<close>

theorem scale_output_dimensions:
  "apply_scale L cfg (Some img) g = Inr ((im', text), g') \<Longrightarrow>
   \<exists>img'. im' = Some img'
     \<and> int (height img') = new_size cfg (height img)
     \<and> int (width img') = new_size cfg (width img)
     \<and> int (height img') = \<lfloor>fmul (py_float (int (height img))) (size_factor cfg)\<rfloor>
     \<and> int (width img') = \<lfloor>fmul (py_float (int (width img))) (size_factor cfg)\<rfloor>"
proof -
  assume "apply_scale L cfg (Some img) g = Inr ((im', text), g')"
  then obtain im0 i where
    "cv2_resize L im0 (new_size cfg (width img), new_size cfg (height img)) i = Inr im'"
    using apply_scale_final_resize by blast
  then obtain img' where r: "im' = Some img'"
      "int (height img') = new_size cfg (height img)"
      "int (width img') = new_size cfg (width img)"
      "0 < new_size cfg (height img)" "0 < new_size cfg (width img)"
    using cv2_resize_shape by blast
  have "new_size cfg (height img) = \<lfloor>fmul (py_float (int (height img))) (size_factor cfg)\<rfloor>"
    using r(4) py_int_pos_floor by (simp add: new_size_def)
  moreover
  have "new_size cfg (width img) = \<lfloor>fmul (py_float (int (width img))) (size_factor cfg)\<rfloor>"
    using r(5) py_int_pos_floor by (simp add: new_size_def)
  ultimately show ?thesis using r by simp
qed

text \<open>
  The products are those of the doubles: with the factor 0.7 a height of 10 gives 7 and
  a width of 90 gives 62, and with 0.29 a height of 100 gives 28.
\<close>

lemma round_double_1: "round_double 1 = 1"
  by code_simp

lemma round_double_0: "round_double 0 = 0"
  by (simp add: round_double_def)

lemma double_of_7_10: "round_double (7 / 10) = 3152519739159347 / 4503599627370496"
  by code_simp

lemma new_size_small: "new_size (example_config\<lparr>size_factor := 3 / 4\<rparr>) 2 = 1"
  by code_simp

lemma new_size_wide:
  "new_size (example_config\<lparr>size_factor := round_double (7 / 10)\<rparr>) 10 = 7"
  "new_size (example_config\<lparr>size_factor := round_double (7 / 10)\<rparr>) 90 = 62"
  by code_simp+

lemma new_size_29:
  "new_size (example_config\<lparr>size_factor := round_double (29 / 100)\<rparr>) 100 = 28"
  by code_simp

lemma intermediate_size: "py_int (fmul (py_float (int 2)) 1) = 2"
  by code_simp

lemma apply_scale_down_up_example:
  "apply_scale example_lib (example_config\<lparr>size_factor := 3 / 4\<rparr>) (Some example_image)
       (const_rng 0)
     = Inr ((Some \<lparr>height = 1, width = 1, data = [200, 200, 200], drawn = []\<rparr>,
             ''down_up scale1factor=<float> scale1algorithm=nearest''
               @ '' scale2factor=<float> scale2algorithm=bilinear''),
            const_rng 0)"
proof -
  have c: "choose_algorithm False [''down_up''] (const_rng 0) = Inr (''down_up'', const_rng 0)"
    by (simp add: choose_algorithm_def)
  have u: "uniform_star [1, 2] (const_rng 0) = Inr (1, const_rng 0)"
    by (simp add: uniform_star_def next_raw_def const_rng_def np_uniform_def fadd_def fmul_def
        fsub_def round_double_0 round_double_1)
  have l: "lookup_interpolation ''nearest'' = Inr 0" "lookup_interpolation ''bilinear'' = Inr 1"
    by (simp_all add: lookup_interpolation_def interpolation_map_def)
  have r1: "cv2_resize example_lib (Some example_image) (2, 2) 0 = Inr (Some example_image)"
    by (simp add: cv2_resize_def example_lib_def example_image_def bindE_def numeral_eq_Suc)
  have r2: "cv2_resize example_lib (Some example_image) (1, 1) 1
              = Inr (Some \<lparr>height = 1, width = 1, data = [200, 200, 200], drawn = []\<rparr>)"
    by (simp add: cv2_resize_def example_lib_def example_image_def bindE_def numeral_eq_Suc)
  have h: "height example_image = 2" "width example_image = 2"
    by (simp_all add: example_image_def)
  have f: "format_2f example_lib = (\<lambda>x. ''<float>'')"
    by (simp add: example_lib_def)
  have cfg: "scale_randomize (example_config\<lparr>size_factor := 3 / 4\<rparr>) = False"
    "scale_algorithms (example_config\<lparr>size_factor := 3 / 4\<rparr>) = [''down_up'']"
    "down_up_scale_algorithms (example_config\<lparr>size_factor := 3 / 4\<rparr>)
       = [''nearest'', ''bilinear'']"
    "scale_range (example_config\<lparr>size_factor := 3 / 4\<rparr>) = [1, 2]"
    "print_to_image (example_config\<lparr>size_factor := 3 / 4\<rparr>) = True"
    by (simp_all add: example_config_def)
  show ?thesis
    unfolding apply_scale_def
    using c u l r1 r2 h f cfg new_size_small intermediate_size
    by (simp add: bindE_def Let_def choose_down_up_def)
qed

lemma apply_scale_wide_example:
  "apply_scale example_lib
       (example_config\<lparr>size_factor := round_double (7 / 10), scale_algorithms := [''nearest'']\<rparr>)
       (Some wide_image) (const_rng 0)
     = Inr ((Some \<lparr>height = 7, width = 62, data = replicate 1302 200, drawn = []\<rparr>,
             ''nearest size factor=<float>''), const_rng 0)"
proof -
  let ?cfg = "example_config\<lparr>size_factor := round_double (7 / 10),
                scale_algorithms := [''nearest'']\<rparr>"
  have n: "new_size ?cfg 10 = 7" "new_size ?cfg 90 = 62"
    using new_size_wide by (simp_all add: new_size_def)
  have c: "choose_algorithm (scale_randomize ?cfg) (scale_algorithms ?cfg) (const_rng 0)
             = Inr (''nearest'', const_rng 0)"
    by (simp add: choose_algorithm_single)
  have l: "lookup_interpolation ''nearest'' = Inr 0"
    by (simp add: lookup_interpolation_def interpolation_map_def)
  have r: "cv2_resize example_lib (Some wide_image) (62, 7) 0
             = Inr (Some \<lparr>height = 7, width = 62, data = replicate 1302 200, drawn = []\<rparr>)"
    by (simp add: cv2_resize_def example_lib_def wide_image_def bindE_def)
  have h: "height wide_image = 10" "width wide_image = 90"
    by (simp_all add: wide_image_def)
  have f: "repr_float example_lib = (\<lambda>x. ''<float>'')"
    by (simp add: example_lib_def)
  have p: "print_to_image ?cfg"
    by (simp add: example_config_def)
  show ?thesis
    unfolding apply_scale_def
    using n c l r h f p
    by (simp add: bindE_def Let_def)
qed

theorem scale_output_dimensions_witness:
  "apply_scale example_lib (example_config\<lparr>size_factor := 3 / 4\<rparr>) (Some example_image)
       (const_rng 0)
     = Inr ((Some \<lparr>height = 1, width = 1, data = [200, 200, 200], drawn = []\<rparr>,
             ''down_up scale1factor=<float> scale1algorithm=nearest''
               @ '' scale2factor=<float> scale2algorithm=bilinear''),
            const_rng 0)
   \<and> \<lfloor>fmul (py_float (int (height example_image))) (3 / 4)\<rfloor> = 1
   \<and> round (fmul (py_float (int (height example_image))) (3 / 4)) = 2
   \<and> apply_scale example_lib
       (example_config\<lparr>size_factor := round_double (7 / 10), scale_algorithms := [''nearest'']\<rparr>)
       (Some wide_image) (const_rng 0)
     = Inr ((Some \<lparr>height = 7, width = 62, data = replicate 1302 200, drawn = []\<rparr>,
             ''nearest size factor=<float>''), const_rng 0)
   \<and> \<lfloor>fmul (py_float (int (height wide_image))) (round_double (7 / 10))\<rfloor> = 7
   \<and> \<lfloor>fmul (py_float (int (width wide_image))) (round_double (7 / 10))\<rfloor> = 62"
proof -
  have v: "fmul (py_float (int 2)) (3 / 4) = 3 / 2"
    by code_simp
  have r: "round (3 / 2 :: rat) = 2"
  proof -
    have "\<lfloor>3 / 2 + 1 / 2 :: rat\<rfloor> = 2" by simp
    then show ?thesis unfolding round_def by simp
  qed
  have h: "height example_image = 2"
    by (simp add: example_image_def)
  have w1: "\<lfloor>fmul (py_float (int (height example_image))) (3 / 4)\<rfloor> = 1"
    using scale_output_dimensions [OF apply_scale_down_up_example] by auto
  have w2: "round (fmul (py_float (int (height example_image))) (3 / 4)) = 2"
    unfolding h v by (rule r)
  have w3: "\<lfloor>fmul (py_float (int (height wide_image))) (round_double (7 / 10))\<rfloor> = 7
      \<and> \<lfloor>fmul (py_float (int (width wide_image))) (round_double (7 / 10))\<rfloor> = 62"
    using scale_output_dimensions [OF apply_scale_wide_example] by auto
  show ?thesis
    using apply_scale_down_up_example apply_scale_wide_example w1 w2 w3 by blast
qed

subsection \<open>The annotation\<close>

lemma annotate_lines:
  "annotate cfg (Some img) (int n) all_text =
     Inr (Some (img\<lparr>drawn := drawn img @
       map (\<lambda>(i, t). (str_int (int i) @ ''. '' @ t, (10, int i * 50), 5 / 4 * size_factor cfg))
         (enumerate n all_text)\<rparr>))"
proof (induction all_text arbitrary: img n)
  case Nil
  then show ?case by simp
next
  case (Cons t ts)
  let ?img = "img\<lparr>drawn := drawn img @
      [(str_int (int n) @ ''. '' @ t, (10, int n * 50), 5 / 4 * size_factor cfg)]\<rparr>"
  have s: "int n + 1 = int (Suc n)" by simp
  have "annotate cfg (Some img) (int n) (t # ts) = annotate cfg (Some ?img) (int (Suc n)) ts"
    unfolding annotate.simps print_text_to_image_def cv2_putText_def s
    by (simp add: bindE_def)
  also have "\<dots> = Inr (Some (?img\<lparr>drawn := drawn ?img @
       map (\<lambda>(i, t). (str_int (int i) @ ''. '' @ t, (10, int i * 50), 5 / 4 * size_factor cfg))
         (enumerate (Suc n) ts)\<rparr>))"
    by (rule Cons.IH)
  finally show ?case by simp
qed

lemma str_int_1_2: "str_int 1 = ''1''" "str_int 2 = ''2''"
  by code_simp+

text \<open>
  C8, as amended. With annotation enabled, the image written carries one text line for
  each recorded description, in the order the descriptions were produced: line \<open>i\<close>
  (counted from 1) is drawn at the origin \<open>(10, 50 * i)\<close>. The vertical offset is
  50 times the step index and does not depend on \<open>size_factor\<close>; only the font scale,
  \<open>1.25 * size_factor\<close>, does.
\<close>

theorem annotation_lines:
  assumes "print_to_image cfg"
    and "degradation_order cfg g = (order, g1)"
    and "degrade_loop L cfg (imread L image_path, None, [], g1) order
           = Inr (Some img, text, all_text, g2)"
    and "makedirs L (out_path L (output_folder cfg) (input_folder cfg) image_path
           (output_format cfg)) = None"
    and "imwrite L (out_path L (output_folder cfg) (input_folder cfg) image_path
           (output_format cfg))
           (img\<lparr>drawn := drawn img @
             map (\<lambda>(i, t). (str_int (int i) @ ''. '' @ t, (10, int i * 50),
                             5 / 4 * size_factor cfg))
               (enumerate 1 all_text)\<rparr>) = None"
  shows "process_image L cfg image_path g =
     Inr ((out_path L (output_folder cfg) (input_folder cfg) image_path (output_format cfg),
           img\<lparr>drawn := drawn img @
             map (\<lambda>(i, t). (str_int (int i) @ ''. '' @ t, (10, int i * 50),
                             5 / 4 * size_factor cfg))
               (enumerate 1 all_text)\<rparr>), g2)"
proof -
  have a: "annotate cfg (Some img) 1 all_text =
     Inr (Some (img\<lparr>drawn := drawn img @
       map (\<lambda>(i, t). (str_int (int i) @ ''. '' @ t, (10, int i * 50), 5 / 4 * size_factor cfg))
         (enumerate 1 all_text)\<rparr>))"
    using annotate_lines [of cfg img 1 all_text] by simp
  show ?thesis
    using assms a by (simp add: process_image_def bindE_def Let_def)
qed

theorem annotation_lines_witness:
  "process_image example_lib (example_config\<lparr>degradations := [''blur'']\<rparr>) ''in/a.png''
       (const_rng 0)
     = Inr ((''out/a.png'',
             example_image\<lparr>drawn := [(''1. blur gaussian ksize=3'', (10, 50), 5 / 8)]\<rparr>),
            const_rng 0)"
proof -
  let ?cfg = "example_config\<lparr>degradations := [''blur'']\<rparr>"
  have p: "print_to_image ?cfg"
    by (simp add: example_config_def)
  have o: "degradation_order ?cfg (const_rng 0) = ([''blur''], const_rng 0)"
    by (simp add: degradation_order_def example_config_def)
  have c: "choose_algorithm (blur_randomize ?cfg) (blur_algorithms ?cfg) (const_rng 0)
             = Inr (''gaussian'', const_rng 0)"
    by (simp add: example_config_def choose_algorithm_def)
  have r: "randint_star (blur_range ?cfg) (const_rng 0) = Inr (3, const_rng 0)"
    by (simp add: example_config_def randint_star_def randint_def randbelow_def next_raw_def
        const_rng_def)
  have k: "gaussian_ksize 3 = 3"
    by (simp add: gaussian_ksize_eq)
  have s3: "str_int 3 = ''3''"
    by code_simp
  have b: "cv2_GaussianBlur example_lib (Some example_image) (3, 3) 0 0 = Inr (Some example_image)"
    by (simp add: cv2_GaussianBlur_def example_lib_def example_image_def bindE_def)
  have i: "imread example_lib ''in/a.png'' = Some example_image"
    by (simp add: example_lib_def)
  have l: "degrade_loop example_lib ?cfg (imread example_lib ''in/a.png'', None, [], const_rng 0)
             [''blur'']
           = Inr (Some example_image, Some ''gaussian ksize=3'', [''blur gaussian ksize=3''],
                  const_rng 0)"
    using apply_blur_gaussian [OF c r, of example_lib "Some example_image"] k s3 b i
    by (simp add: degrade_step_def bindE_def)
  have out: "out_path example_lib (output_folder ?cfg) (input_folder ?cfg) ''in/a.png''
               (output_format ?cfg) = ''out/a.png''"
    by (simp add: example_lib_def example_config_def)
  have m: "makedirs example_lib (out_path example_lib (output_folder ?cfg) (input_folder ?cfg)
             ''in/a.png'' (output_format ?cfg)) = None"
    by (simp add: example_lib_def)
  have w: "imwrite example_lib (out_path example_lib (output_folder ?cfg) (input_folder ?cfg)
             ''in/a.png'' (output_format ?cfg))
           (example_image\<lparr>drawn := drawn example_image @
             map (\<lambda>(i, t). (str_int (int i) @ ''. '' @ t, (10, int i * 50),
                             5 / 4 * size_factor ?cfg))
               (enumerate 1 [''blur gaussian ksize=3''])\<rparr>) = None"
    by (simp add: example_lib_def)
  have sf: "size_factor ?cfg = 1 / 2"
    by (simp add: example_config_def)
  show ?thesis
    using annotation_lines [OF p o l m w] out sf
    by (simp add: str_int_1_2 example_image_def)
qed

text \<open>
  The claim as first stated fails: with \<open>size_factor\<close> 0.5 and 1 the two lines are
  drawn at the same offsets 50 and 100; the font scale alone differs.
\<close>

theorem annotation_offset_ignores_size_factor:
  "annotate (example_config\<lparr>size_factor := 1 / 2\<rparr>) (Some example_image) 1 [''a'', ''b'']
     = Inr (Some (example_image\<lparr>drawn :=
         [(''1. a'', (10, 50), 5 / 8), (''2. b'', (10, 100), 5 / 8)]\<rparr>))
   \<and> annotate (example_config\<lparr>size_factor := 1\<rparr>) (Some example_image) 1 [''a'', ''b'']
     = Inr (Some (example_image\<lparr>drawn :=
         [(''1. a'', (10, 50), 5 / 4), (''2. b'', (10, 100), 5 / 4)]\<rparr>))"
  by (simp add: print_text_to_image_def cv2_putText_def bindE_def str_int_1_2 example_image_def)

subsection \<open>An unreadable image\<close>

lemma apply_blur_None:
  "apply_blur L cfg None g = Inr ((im', t), g') \<Longrightarrow> im' = None"
  by (auto simp add: apply_blur_def bindE_def Let_def cv2_blur_def cv2_GaussianBlur_def
      split: sum.splits if_splits prod.splits)

lemma apply_noise_None:
  "apply_noise L cfg None g = Inr ((im', t), g') \<Longrightarrow> im' = None"
  by (auto simp add: apply_noise_def bindE_def split: sum.splits if_splits prod.splits)

lemma apply_compression_None:
  "apply_compression L cfg None g = Inr ((im', t), g') \<Longrightarrow> im' = None"
  by (auto simp add: apply_compression_def bindE_def cv2_imencode_def
      split: sum.splits if_splits prod.splits)

lemma apply_scale_None: "apply_scale L cfg None g = Inl (AttributeError ''shape'')"
  by (simp add: apply_scale_def)

lemma degrade_step_None:
  "degrade_step L cfg (None, text, all_text, g) d = Inr (im', text', all_text', g') \<Longrightarrow>
   im' = None"
  by (auto simp add: degrade_step_def bindE_def apply_scale_None
      dest: apply_blur_None apply_noise_None apply_compression_None
      split: sum.splits if_splits prod.splits option.splits)

lemma degrade_loop_None:
  "degrade_loop L cfg (None, dsc, all_text, g) ds = Inr (im', dsc', all_text', g') \<Longrightarrow>
   im' = None"
proof (induction ds arbitrary: dsc all_text g)
  case Nil
  then show ?case by simp
next
  case (Cons d ds)
  from Cons.prems obtain st where
    s: "degrade_step L cfg (None, dsc, all_text, g) d = Inr st"
    and l: "degrade_loop L cfg st ds = Inr (im', dsc', all_text', g')"
    by (auto simp add: bindE_def split: sum.splits)
  obtain a b c e where st: "st = (a, b, c, e)" by (cases st)
  with s have "a = None" using degrade_step_None by blast
  with l st show ?case using Cons.IH by blast
qed

lemma annotate_None:
  "annotate cfg None k ts = (if ts = [] then Inr None else Inl (cv2_error ''putText''))"
  by (cases ts) (simp_all add: print_text_to_image_def cv2_putText_def bindE_def)

text \<open>
  C6, as amended. For an unreadable path \<^verbatim>\<open>cv2.imread\<close> returns \<^verbatim>\<open>None\<close> and
  nothing is raised at the load step: \<open>process_image\<close> runs the degradation loop on
  the absent buffer. The run still ends in an exception and writes no file. The
  exception is the one of the first operator that touches the buffer; when the loop
  gets through, it is the one of \<^verbatim>\<open>cv2.putText\<close>, of the directory creation, or at the
  latest of \<^verbatim>\<open>cv2.imwrite\<close>.
\<close>

theorem unreadable_image_fails_late:
  assumes "imread L image_path = None"
  shows "(\<exists>e. process_image L cfg image_path g = Inl e)
    \<and> (\<forall>order g1 e. degradation_order cfg g = (order, g1)
          \<and> degrade_loop L cfg (None, None, [], g1) order = Inl e
          \<longrightarrow> process_image L cfg image_path g = Inl e)
    \<and> (\<forall>order g1 im text all_text g2. degradation_order cfg g = (order, g1)
          \<and> degrade_loop L cfg (None, None, [], g1) order = Inr (im, text, all_text, g2)
          \<longrightarrow> im = None
            \<and> process_image L cfg image_path g =
                Inl (if print_to_image cfg \<and> all_text \<noteq> [] then cv2_error ''putText''
                     else case makedirs L (out_path L (output_folder cfg) (input_folder cfg)
                                 image_path (output_format cfg)) of
                            Some e \<Rightarrow> e
                          | None \<Rightarrow> cv2_error ''imwrite''))"
proof -
  obtain order g1 where o: "degradation_order cfg g = (order, g1)"
    by (cases "degradation_order cfg g")
  have fail: "process_image L cfg image_path g = Inl e"
    if "degrade_loop L cfg (None, None, [], g1) order = Inl e" for e
    using that o assms by (simp add: process_image_def bindE_def Let_def)
  have late: "im = None \<and> process_image L cfg image_path g =
                Inl (if print_to_image cfg \<and> all_text \<noteq> [] then cv2_error ''putText''
                     else case makedirs L (out_path L (output_folder cfg) (input_folder cfg)
                                 image_path (output_format cfg)) of
                            Some e \<Rightarrow> e
                          | None \<Rightarrow> cv2_error ''imwrite'')"
    if l: "degrade_loop L cfg (None, None, [], g1) order = Inr (im, dsc, all_text, g2)"
    for im dsc all_text g2
  proof -
    have n: "im = None" using l by (rule degrade_loop_None)
    show ?thesis
      using l n o assms
      by (simp add: process_image_def bindE_def Let_def annotate_None split: option.splits)
  qed
  have ex: "\<exists>e. process_image L cfg image_path g = Inl e"
  proof (cases "degrade_loop L cfg (None, None, [], g1) order")
    case (Inl e)
    then show ?thesis using fail by blast
  next
    case (Inr st)
    obtain a b c d where "st = (a, b, c, d)" by (cases st)
    with Inr late [of a b c d] show ?thesis by blast
  qed
  show ?thesis
    using ex fail late o by auto
qed


theorem unreadable_image_fails_late_witness:
  "imread example_lib ''in/b.png'' = None
   \<and> (\<exists>e. process_image example_lib example_config ''in/b.png'' (const_rng 0) = Inl e)"
proof -
  have i: "imread example_lib ''in/b.png'' = None"
    by (simp add: example_lib_def)
  show ?thesis
    using i unreadable_image_fails_late [OF i, of example_config "const_rng 0"]
    by simp
qed

text \<open>
  The claim as first stated fails: for the missing file \<^verbatim>\<open>in/b.png\<close> the exception
  comes from the blur step; with a blur algorithm that no branch implements, the loop
  completes on the absent buffer and the exception comes from the final write.
\<close>

theorem unreadable_image_no_error_at_load:
  "imread example_lib ''in/b.png'' = None
   \<and> process_image example_lib example_config ''in/b.png'' (const_rng 0)
       = Inl (cv2_error ''GaussianBlur'')
   \<and> degrade_loop example_lib
        (example_config\<lparr>blur_algorithms := [''median''], degradations := [''blur''],
           print_to_image := False\<rparr>)
        (imread example_lib ''in/b.png'', None, [], const_rng 0) [''blur'']
       = Inr (None, Some [], [''blur ''], const_rng 0)
   \<and> process_image example_lib
        (example_config\<lparr>blur_algorithms := [''median''], degradations := [''blur''],
           print_to_image := False\<rparr>) ''in/b.png'' (const_rng 0)
       = Inl (cv2_error ''imwrite'')"
proof -
  let ?cfg = "example_config\<lparr>blur_algorithms := [''median''], degradations := [''blur''],
           print_to_image := False\<rparr>"
  have i: "imread example_lib ''in/b.png'' = None"
    by (simp add: example_lib_def)
  have c: "choose_algorithm (blur_randomize example_config) (blur_algorithms example_config)
             (const_rng 0) = Inr (''gaussian'', const_rng 0)"
    by (simp add: example_config_def choose_algorithm_def)
  have r: "randint_star (blur_range example_config) (const_rng 0) = Inr (3, const_rng 0)"
    by (simp add: example_config_def randint_star_def randint_def randbelow_def next_raw_def
        const_rng_def)
  have b: "apply_blur example_lib example_config None (const_rng 0)
             = Inl (cv2_error ''GaussianBlur'')"
    using apply_blur_gaussian [OF c r, of example_lib None]
    by (simp add: cv2_GaussianBlur_def bindE_def)
  have o: "degradation_order example_config (const_rng 0)
             = ([''blur'', ''noise'', ''compression'', ''scale''], const_rng 0)"
    by (simp add: degradation_order_def example_config_def)
  have 1: "process_image example_lib example_config ''in/b.png'' (const_rng 0)
       = Inl (cv2_error ''GaussianBlur'')"
    using i o b by (simp add: process_image_def degrade_step_def bindE_def)
  have m: "apply_blur example_lib ?cfg None (const_rng 0) = Inr ((None, []), const_rng 0)"
    by (simp add: apply_blur_def bindE_def choose_algorithm_single)
  have 2: "degrade_loop example_lib ?cfg (imread example_lib ''in/b.png'', None, [], const_rng 0)
             [''blur'']
           = Inr (None, Some [], [''blur ''], const_rng 0)"
    using i m by (simp add: degrade_step_def bindE_def)
  have 3: "process_image example_lib ?cfg ''in/b.png'' (const_rng 0) = Inl (cv2_error ''imwrite'')"
    using i m
    by (simp add: process_image_def degradation_order_def degrade_step_def bindE_def
        example_config_def example_lib_def)
  show ?thesis using i 1 2 3 by simp
qed

subsection \<open>The arithmetic of the noise operator\<close>





















end
